theory Spec2Isabelle
  imports Complex_Main
begin

section \<open>Exceptions\<close>

text \<open>
  Every exception the two modules can raise, or let through from the modelling framework,
  is a value. \<open>Exception\<close> is Python's plain \<^verbatim>\<open>Exception(msg)\<close>;
  \<open>External\<close> stands for whatever a collaborator (a state block's \<^verbatim>\<open>initialize\<close>,
  the solver) raises on its own. \<open>ComplexResult\<close> is not an exception: Python's
  \<^verbatim>\<open>**\<close> answers a negative base with a fractional exponent by a complex number,
  and the model, which has real values only, stops there.
\<close>

datatype error =
    AttributeError string
  | KeyError string
  | RuntimeError string
  | InconsistentUnitsError
  | ZeroDivisionError
  | ValueError string
  | TypeError string
  | Exception string
  | InitializationError string
  | External string
  | ComplexResult

definition and_then :: "error + 'a \<Rightarrow> ('a \<Rightarrow> error + 'b) \<Rightarrow> error + 'b" where
  "and_then r f = (case r of Inl e \<Rightarrow> Inl e | Inr x \<Rightarrow> f x)"

section \<open>Units and expressions\<close>

text \<open>
  Both modules build Pyomo expressions whose leaves carry pint units. A unit is kept as
  its factor to the base units together with its dimension: the exponents of mass,
  length, time, amount of substance and currency. Two units with the same factor and the
  same dimension are the same unit here. Numbers are real numbers: the rounding of
  Python's floats is not modelled.
\<close>

datatype dimension = Dimension real real real real real

fun dim_add :: "dimension \<Rightarrow> dimension \<Rightarrow> dimension" where
  "dim_add (Dimension a b c d e) (Dimension a' b' c' d' e') =
     Dimension (a + a') (b + b') (c + c') (d + d') (e + e')"

fun dim_sub :: "dimension \<Rightarrow> dimension \<Rightarrow> dimension" where
  "dim_sub (Dimension a b c d e) (Dimension a' b' c' d' e') =
     Dimension (a - a') (b - b') (c - c') (d - d') (e - e')"

fun dim_scale :: "dimension \<Rightarrow> real \<Rightarrow> dimension" where
  "dim_scale (Dimension a b c d e) r = Dimension (a * r) (b * r) (c * r) (d * r) (e * r)"

datatype pint_unit = Unit (scale: real) (dims: dimension)

definition unit_mul :: "pint_unit \<Rightarrow> pint_unit \<Rightarrow> pint_unit" where
  "unit_mul u w = Unit (scale u * scale w) (dim_add (dims u) (dims w))"

definition unit_div :: "pint_unit \<Rightarrow> pint_unit \<Rightarrow> pint_unit" where
  "unit_div u w = Unit (scale u / scale w) (dim_sub (dims u) (dims w))"

definition unit_pow :: "pint_unit \<Rightarrow> real \<Rightarrow> pint_unit" where
  "unit_pow u r = Unit (scale u powr r) (dim_scale (dims u) r)"

definition dimensionless :: pint_unit where
  "dimensionless = Unit 1 (Dimension 0 0 0 0 0)"

text \<open>The units of pint's default registry that the modules name.\<close>

definition pyunits_kg :: pint_unit where
  "pyunits_kg = Unit 1 (Dimension 1 0 0 0 0)"

definition pyunits_m :: pint_unit where
  "pyunits_m = Unit 1 (Dimension 0 1 0 0 0)"

definition pyunits_s :: pint_unit where
  "pyunits_s = Unit 1 (Dimension 0 0 1 0 0)"

definition pyunits_mol :: pint_unit where
  "pyunits_mol = Unit 1 (Dimension 0 0 0 1 0)"

definition pyunits_L :: pint_unit where
  "pyunits_L = Unit (1 / 1000) (Dimension 0 3 0 0 0)"

definition pyunits_gal :: pint_unit where
  "pyunits_gal = Unit (3785411784 / 10 ^ 12) (Dimension 0 3 0 0 0)"

definition pyunits_year :: pint_unit where
  "pyunits_year = Unit 31557600 (Dimension 0 0 1 0 0)"

text \<open>
  Expressions, as the operators \<^verbatim>\<open>*\<close>, \<^verbatim>\<open>/\<close> and \<^verbatim>\<open>**\<close> build them from numbers,
  units and variables. The only exponents in the modules are numbers.
\<close>

datatype 'v expr =
    Num real
  | U pint_unit
  | V 'v
  | Mul "'v expr" "'v expr"
  | Div "'v expr" "'v expr"
  | Pow "'v expr" real

datatype 'v constraint = Eq "'v expr" "'v expr"

fun get_units :: "('v \<Rightarrow> pint_unit) \<Rightarrow> 'v expr \<Rightarrow> pint_unit" where
  "get_units vu (Num r) = dimensionless"
| "get_units vu (U u) = u"
| "get_units vu (V v) = vu v"
| "get_units vu (Mul a b) = unit_mul (get_units vu a) (get_units vu b)"
| "get_units vu (Div a b) = unit_div (get_units vu a) (get_units vu b)"
| "get_units vu (Pow a r) = unit_pow (get_units vu a) r"

text \<open>
  \<^verbatim>\<open>pyunits.convert(src, to_units)\<close>: the source itself when the units are the same, an
  error when the dimensions differ, and otherwise the source times the ratio of the
  factors and times \<^verbatim>\<open>to_units / src_units\<close>.
\<close>

definition convert :: "('v \<Rightarrow> pint_unit) \<Rightarrow> 'v expr \<Rightarrow> 'v expr \<Rightarrow> error + 'v expr" where
  "convert vu src to_units =
     (let src_unit = get_units vu src; to_unit = get_units vu to_units in
      if src_unit = to_unit then Inr src
      else if dims src_unit \<noteq> dims to_unit then Inl InconsistentUnitsError
      else Inr (Mul (Div (Mul (Num (scale src_unit / scale to_unit)) (U to_unit)) (U src_unit))
                  src))"

text \<open>What \<^verbatim>\<open>convert\<close> returns when the dimensions agree, in terms of the two units.\<close>

definition converted :: "pint_unit \<Rightarrow> pint_unit \<Rightarrow> 'v expr \<Rightarrow> 'v expr" where
  "converted src_unit to_unit src =
     (if src_unit = to_unit then src
      else Mul (Div (Mul (Num (scale src_unit / scale to_unit)) (U to_unit)) (U src_unit)) src)"

text \<open>Python's \<^verbatim>\<open>/\<close> and \<^verbatim>\<open>**\<close> on floats, and \<^verbatim>\<open>math.log10\<close>.\<close>

definition py_div :: "real \<Rightarrow> real \<Rightarrow> error + real" where
  "py_div a b = (if b = 0 then Inl ZeroDivisionError else Inr (a / b))"

definition py_pow :: "real \<Rightarrow> real \<Rightarrow> error + real" where
  "py_pow b r =
     (if 0 < b then Inr (b powr r)
      else if b = 0 then
        (if r < 0 then Inl ZeroDivisionError else if r = 0 then Inr 1 else Inr 0)
      else if r = of_int \<lfloor>r\<rfloor> then Inr (b powi \<lfloor>r\<rfloor>)
      else Inl ComplexResult)"

definition log10 :: "real \<Rightarrow> error + real" where
  "log10 x = (if x \<le> 0 then Inl (ValueError ''math domain error'') else Inr (log 10 x))"

text \<open>
  Pyomo's \<^verbatim>\<open>value(expr)\<close> under the current values \<open>s\<close> of the variables; a unit
  counts as 1, a variable without a value raises.
\<close>

fun value_of :: "('v \<rightharpoonup> real) \<Rightarrow> 'v expr \<Rightarrow> error + real" where
  "value_of s (Num r) = Inr r"
| "value_of s (U u) = Inr 1"
| "value_of s (V v) =
     (case s v of
        None \<Rightarrow> Inl (ValueError ''No value for uninitialized NumericValue object'')
      | Some r \<Rightarrow> Inr r)"
| "value_of s (Mul a b) =
     and_then (value_of s a) (\<lambda>x. and_then (value_of s b) (\<lambda>y. Inr (x * y)))"
| "value_of s (Div a b) =
     and_then (value_of s a) (\<lambda>x. and_then (value_of s b) (\<lambda>y. py_div x y))"
| "value_of s (Pow a r) = and_then (value_of s a) (\<lambda>x. py_pow x r)"

text \<open>The variables an expression mentions.\<close>

fun vars_of :: "'v expr \<Rightarrow> 'v set" where
  "vars_of (Num r) = {}"
| "vars_of (U u) = {}"
| "vars_of (V v) = {v}"
| "vars_of (Mul a b) = vars_of a \<union> vars_of b"
| "vars_of (Div a b) = vars_of a \<union> vars_of b"
| "vars_of (Pow a r) = vars_of a"

section \<open>The translator's constraints\<close>

text \<open>
  \<^verbatim>\<open>build\<close> of \<^verbatim>\<open>translator_SX_precipitator.py\<close>. The variables are those of the two
  state blocks, indexed by time (and by species or ion). The units \<open>vu\<close> of the upstream
  variables come from the inlet property package, and \<open>s\<close> holds the values the
  variables have while \<^verbatim>\<open>build\<close> runs. An indexed component is the list of its members
  by time index; its rule is called for each index in turn, and an exception ends the
  construction. The time set of the flowsheet is the list \<open>time\<close>. The state blocks
  themselves, which \<^verbatim>\<open>super().build()\<close> creates, are not part of the module.
\<close>

datatype tvar =
    In_flow_vol real
  | In_flow_mass real string
  | Out_flow_mass real
  | Out_log10_molality_comp real string

fun build_indexed :: "(real \<Rightarrow> error + 'a) \<Rightarrow> real list \<Rightarrow> error + (real \<times> 'a) list" where
  "build_indexed rule [] = Inr []"
| "build_indexed rule (t # ts) =
     and_then (rule t) (\<lambda>c. and_then (build_indexed rule ts) (\<lambda>cs. Inr ((t, c) # cs)))"

definition getitem :: "(real \<times> 'a) list \<Rightarrow> real \<Rightarrow> error + 'a" where
  "getitem cs t = (case map_of cs t of None \<Rightarrow> Inl (KeyError ''time'') | Some x \<Rightarrow> Inr x)"

record translator =
  solvent_mass_flow :: "(real \<times> tvar expr) list"
  eq_flow_mass_rule :: "(real \<times> tvar constraint) list"
  aluminum_molar_flow :: "(real \<times> tvar expr) list"
  eq_aluminum_molality :: "(real \<times> tvar constraint) list"
  calcium_molar_flow :: "(real \<times> tvar expr) list"
  eq_calcium_molality :: "(real \<times> tvar constraint) list"
  iron_molar_flow :: "(real \<times> tvar expr) list"
  eq_iron_molality :: "(real \<times> tvar constraint) list"
  eq_hydrogen_molality :: "(real \<times> tvar constraint) list"
  eq_hydroxide_molality :: "(real \<times> tvar constraint) list"

definition mw_al :: "tvar expr" where
  "mw_al = Div (Mul (Num 0.02698154) (U pyunits_kg)) (U pyunits_mol)"
definition mw_ca :: "tvar expr" where
  "mw_ca = Div (Mul (Num 0.03996259) (U pyunits_kg)) (U pyunits_mol)"
definition mw_fe :: "tvar expr" where
  "mw_fe = Div (Mul (Num 0.05593494) (U pyunits_kg)) (U pyunits_mol)"

definition solvent_mass_flow_rule :: "(tvar \<Rightarrow> pint_unit) \<Rightarrow> real \<Rightarrow> error + tvar expr" where
  "solvent_mass_flow_rule vu t =
     and_then (convert vu (V (In_flow_vol t)) (Div (U pyunits_L) (U pyunits_s)))
       (\<lambda>c. Inr (Mul c (Div (Mul (Num 1.840) (U pyunits_kg)) (U pyunits_L))))"

definition eq_flow_mass_rule_rule :: "translator \<Rightarrow> real \<Rightarrow> error + tvar constraint" where
  "eq_flow_mass_rule_rule blk t =
     and_then (getitem (solvent_mass_flow blk) t) (\<lambda>m. Inr (Eq (V (Out_flow_mass t)) m))"

definition aluminum_molar_flow_rule :: "(tvar \<Rightarrow> pint_unit) \<Rightarrow> real \<Rightarrow> error + tvar expr" where
  "aluminum_molar_flow_rule vu t =
     and_then (convert vu (V (In_flow_mass t ''Al'')) (Div (U pyunits_kg) (U pyunits_s)))
       (\<lambda>c. Inr (Div c mw_al))"

definition eq_aluminum_molality_rule ::
  "(tvar \<rightharpoonup> real) \<Rightarrow> translator \<Rightarrow> real \<Rightarrow> error + tvar constraint" where
  "eq_aluminum_molality_rule s blk t =
     and_then (getitem (aluminum_molar_flow blk) t) (\<lambda>n.
     and_then (getitem (solvent_mass_flow blk) t) (\<lambda>m.
     and_then (value_of s (Div n m)) (\<lambda>x.
     and_then (log10 x) (\<lambda>y.
       Inr (Eq (V (Out_log10_molality_comp t ''Al^3+'')) (Num y))))))"

definition calcium_molar_flow_rule :: "(tvar \<Rightarrow> pint_unit) \<Rightarrow> real \<Rightarrow> error + tvar expr" where
  "calcium_molar_flow_rule vu t =
     and_then (convert vu (V (In_flow_mass t ''Ca'')) (Div (U pyunits_kg) (U pyunits_s)))
       (\<lambda>c. Inr (Div c mw_ca))"

definition eq_calcium_molality_rule ::
  "(tvar \<rightharpoonup> real) \<Rightarrow> translator \<Rightarrow> real \<Rightarrow> error + tvar constraint" where
  "eq_calcium_molality_rule s blk t =
     and_then (getitem (calcium_molar_flow blk) t) (\<lambda>n.
     and_then (getitem (solvent_mass_flow blk) t) (\<lambda>m.
     and_then (value_of s (Div n m)) (\<lambda>x.
     and_then (log10 x) (\<lambda>y.
       Inr (Eq (V (Out_log10_molality_comp t ''Ca^2+'')) (Num y))))))"

definition iron_molar_flow_rule :: "(tvar \<Rightarrow> pint_unit) \<Rightarrow> real \<Rightarrow> error + tvar expr" where
  "iron_molar_flow_rule vu t =
     and_then (convert vu (V (In_flow_mass t ''Fe'')) (Div (U pyunits_kg) (U pyunits_s)))
       (\<lambda>c. Inr (Div c mw_fe))"

definition eq_iron_molality_rule ::
  "(tvar \<rightharpoonup> real) \<Rightarrow> translator \<Rightarrow> real \<Rightarrow> error + tvar constraint" where
  "eq_iron_molality_rule s blk t =
     and_then (getitem (iron_molar_flow blk) t) (\<lambda>n.
     and_then (getitem (solvent_mass_flow blk) t) (\<lambda>m.
     and_then (value_of s (Div n m)) (\<lambda>x.
     and_then (log10 x) (\<lambda>y.
       Inr (Eq (V (Out_log10_molality_comp t ''Fe^3+'')) (Num y))))))"

definition pH :: real where "pH = 2.5"

definition Kw :: real where "Kw = 1 / 10 ^ 14"

definition eq_hydrogen_molality_rule :: "real \<Rightarrow> error + tvar constraint" where
  "eq_hydrogen_molality_rule t =
     and_then (py_pow 10 (- pH)) (\<lambda>h.
     and_then (log10 h) (\<lambda>y.
       Inr (Eq (V (Out_log10_molality_comp t ''H^+'')) (Num y))))"

definition eq_hydroxide_molality_rule :: "real \<Rightarrow> error + tvar constraint" where
  "eq_hydroxide_molality_rule t =
     and_then (py_pow 10 (- pH)) (\<lambda>h.
     and_then (py_div Kw h) (\<lambda>oh.
     and_then (log10 oh) (\<lambda>y.
       Inr (Eq (V (Out_log10_molality_comp t ''OH^-'')) (Num y)))))"

definition empty_translator :: translator where
  "empty_translator =
     \<lparr>solvent_mass_flow = [], eq_flow_mass_rule = [],
      aluminum_molar_flow = [], eq_aluminum_molality = [],
      calcium_molar_flow = [], eq_calcium_molality = [],
      iron_molar_flow = [], eq_iron_molality = [],
      eq_hydrogen_molality = [], eq_hydroxide_molality = []\<rparr>"

definition build ::
  "(tvar \<Rightarrow> pint_unit) \<Rightarrow> (tvar \<rightharpoonup> real) \<Rightarrow> real list \<Rightarrow> error + translator" where
  "build vu s time =
     and_then (build_indexed (solvent_mass_flow_rule vu) time) (\<lambda>c1.
     and_then (build_indexed
        (eq_flow_mass_rule_rule (empty_translator\<lparr>solvent_mass_flow := c1\<rparr>)) time) (\<lambda>c2.
     and_then (build_indexed (aluminum_molar_flow_rule vu) time) (\<lambda>c3.
     and_then (build_indexed
        (eq_aluminum_molality_rule s
           (empty_translator\<lparr>solvent_mass_flow := c1, eq_flow_mass_rule := c2,
              aluminum_molar_flow := c3\<rparr>)) time) (\<lambda>c4.
     and_then (build_indexed (calcium_molar_flow_rule vu) time) (\<lambda>c5.
     and_then (build_indexed
        (eq_calcium_molality_rule s
           (empty_translator\<lparr>solvent_mass_flow := c1, eq_flow_mass_rule := c2,
              aluminum_molar_flow := c3, eq_aluminum_molality := c4,
              calcium_molar_flow := c5\<rparr>)) time) (\<lambda>c6.
     and_then (build_indexed (iron_molar_flow_rule vu) time) (\<lambda>c7.
     and_then (build_indexed
        (eq_iron_molality_rule s
           (empty_translator\<lparr>solvent_mass_flow := c1, eq_flow_mass_rule := c2,
              aluminum_molar_flow := c3, eq_aluminum_molality := c4,
              calcium_molar_flow := c5, eq_calcium_molality := c6,
              iron_molar_flow := c7\<rparr>)) time) (\<lambda>c8.
     and_then (build_indexed eq_hydrogen_molality_rule time) (\<lambda>c9.
     and_then (build_indexed eq_hydroxide_molality_rule time) (\<lambda>c10.
       Inr \<lparr>solvent_mass_flow = c1, eq_flow_mass_rule = c2,
            aluminum_molar_flow = c3, eq_aluminum_molality = c4,
            calcium_molar_flow = c5, eq_calcium_molality = c6,
            iron_molar_flow = c7, eq_iron_molality = c8,
            eq_hydrogen_molality = c9, eq_hydroxide_molality = c10\<rparr>))))))))))"

text \<open>
  Inputs on which \<^verbatim>\<open>build\<close> goes through at time index \<open>t\<close>: the upstream volumetric
  flow is a volume per time and each species mass flow a mass per time, and all of them
  have positive values.
\<close>

definition well_posed :: "(tvar \<Rightarrow> pint_unit) \<Rightarrow> (tvar \<rightharpoonup> real) \<Rightarrow> real \<Rightarrow> bool" where
  "well_posed vu s t =
     (dims (vu (In_flow_vol t)) = Dimension 0 3 (- 1) 0 0 \<and> 0 < scale (vu (In_flow_vol t))
      \<and> (case s (In_flow_vol t) of None \<Rightarrow> False | Some q \<Rightarrow> 0 < q)
      \<and> list_all (\<lambda>j. dims (vu (In_flow_mass t j)) = Dimension 1 0 (- 1) 0 0
             \<and> 0 < scale (vu (In_flow_mass t j))
             \<and> (case s (In_flow_mass t j) of None \<Rightarrow> False | Some a \<Rightarrow> 0 < a))
           [''Al'', ''Ca'', ''Fe''])"

section \<open>The translator's initialization sequence\<close>

text \<open>
  \<^verbatim>\<open>initialize_build\<close> of \<^verbatim>\<open>translator_SX_precipitator.py\<close> is a fixed
  sequence of calls into collaborators. The collaborators' answers during one run are the
  fields of \<open>collaborators\<close>; the calls made are recorded, in order, in the \<open>calls\<close>
  of the state, next to what the run does to the upstream state block.
\<close>

datatype SolverStatus = ok | warning | solver_error | aborted | unknown

datatype TerminationCondition =
    optimal | locallyOptimal | globallyOptimal
  | maxIterations | maxTimeLimit | infeasible | unbounded | other

record SolverResults =
  status :: SolverStatus
  termination_condition :: TerminationCondition

text \<open>Pyomo's \<^verbatim>\<open>check_optimal_termination(results)\<close>.\<close>

definition check_optimal_termination :: "SolverResults \<Rightarrow> bool" where
  "check_optimal_termination res =
     (status res = ok \<and>
      termination_condition res \<in> {optimal, locallyOptimal, globallyOptimal})"

text \<open>
  The upstream state block, as far as the hold is concerned: which of its state variables
  are fixed. \<^verbatim>\<open>initialize(hold_state=True)\<close> fixes them all and returns the flags, the
  record of which were fixed before; \<^verbatim>\<open>release_state(flags)\<close> puts that back.
\<close>

type_synonym flags = "string \<Rightarrow> bool"

datatype call =
    Get_solver
  | Initialize_in bool
  | Initialize_out
  | Degrees_of_freedom
  | Solve
  | Release_state flags
  | Log_info

record collaborators =
  get_solver_raises :: "error option"
  initialize_in_raises :: "error option"
  initialize_out_raises :: "error option"
  dof :: int
  solve_returns :: "error + SolverResults"
  release_state_raises :: "error option"

record init_state =
  fixed_in :: flags
  calls :: "call list"

definition called :: "call \<Rightarrow> init_state \<Rightarrow> init_state" where
  "called c st = st\<lparr>calls := calls st @ [c]\<rparr>"

text \<open>Python's \<^verbatim>\<open>str\<close> of an integer, for the f-string of the error message.\<close>

function str_nat :: "nat \<Rightarrow> string" where
  "str_nat n =
     (if n < 10 then [''0123456789'' ! n]
      else str_nat (n div 10) @ [''0123456789'' ! (n mod 10)])"
  by pat_completeness auto
termination
  by (relation "measure id") auto

definition str_int :: "int \<Rightarrow> string" where
  "str_int i = (if i < 0 then CHR ''-'' # str_nat (nat (- i)) else str_nat (nat i))"

definition dof_message :: "string \<Rightarrow> int \<Rightarrow> string" where
  "dof_message name d =
     name @ '' degrees of freedom were not 0 at the beginning of initialization. DoF = ''
       @ str_int d"

definition init_failed_message :: "string \<Rightarrow> string" where
  "init_failed_message name =
     name @ '' failed to initialize successfully. Please check the output logs for more information.''"

text \<open>
  \<^verbatim>\<open>initialize_build\<close>, statement by statement. The result is the exception that
  leaves the method (\<open>None\<close> when it returns) and the state at that moment.
\<close>

definition initialize_build ::
  "string \<Rightarrow> collaborators \<Rightarrow> init_state \<Rightarrow> error option \<times> init_state" where
  "initialize_build name ext st0 =
     (let st1 = called Get_solver st0 in
      (case get_solver_raises ext of Some e \<Rightarrow> (Some e, st1) | None \<Rightarrow>
      (let st2 = called (Initialize_in True) st1 in
      (case initialize_in_raises ext of Some e \<Rightarrow> (Some e, st2) | None \<Rightarrow>
      (let flags = fixed_in st2;
           st3 = st2\<lparr>fixed_in := (\<lambda>v. True)\<rparr>;
           st4 = called Initialize_out st3 in
      (case initialize_out_raises ext of Some e \<Rightarrow> (Some e, st4) | None \<Rightarrow>
      (let st5 = called Degrees_of_freedom st4 in
      (if dof ext \<noteq> 0
       then (Some (Exception (dof_message name (dof ext))), called Degrees_of_freedom st5)
       else
        (let st6 = called Solve st5 in
        (case solve_returns ext of Inl e \<Rightarrow> (Some e, st6) | Inr res \<Rightarrow>
        (let st7 = called (Release_state flags) st6 in
        (case release_state_raises ext of Some e \<Rightarrow> (Some e, st7) | None \<Rightarrow>
        (let st8 = st7\<lparr>fixed_in := flags\<rparr>;
             st9 = called Log_info st8 in
        (if \<not> check_optimal_termination res
         then (Some (InitializationError (init_failed_message name)), st9)
         else (None, st9)))))))))))))))"

text \<open>The calls one run of \<^verbatim>\<open>initialize_build\<close> makes, in order.\<close>

definition calls_made :: "string \<Rightarrow> collaborators \<Rightarrow> init_state \<Rightarrow> call list" where
  "calls_made name ext st =
     drop (length (calls st)) (calls (snd (initialize_build name ext st)))"

section \<open>The custom vessel costing\<close>

text \<open>
  \<^verbatim>\<open>custom_costing_example.py\<close>. Currency units are not part of pint's defaults: they are
  looked up by name in the registry \<open>pyunits\<close> as it stands when the code runs. A
  definition line \<^verbatim>\<open>"name = factor * reference"\<close> is kept as the triple of its parts.
\<close>

type_synonym registry = "string \<rightharpoonup> pint_unit"

definition getattr :: "registry \<Rightarrow> string \<Rightarrow> error + pint_unit" where
  "getattr pyunits name =
     (case pyunits name of None \<Rightarrow> Inl (AttributeError name) | Some u \<Rightarrow> Inr u)"

fun load_definitions_from_strings ::
  "registry \<Rightarrow> (string \<times> real \<times> string) list \<Rightarrow> registry" where
  "load_definitions_from_strings reg [] = reg"
| "load_definitions_from_strings reg ((name, factor, reference) # ds) =
     load_definitions_from_strings
       (case reg reference of
          None \<Rightarrow> reg
        | Some u \<Rightarrow> reg(name \<mapsto> Unit (factor * scale u) (dims u)))
       ds"

text \<open>The statement in the body of class \<^verbatim>\<open>CustomCostingData\<close>, run when the class is defined.\<close>

definition CustomCostingData_class_body :: "registry \<Rightarrow> registry" where
  "CustomCostingData_class_body reg =
     load_definitions_from_strings reg [(''USD_custom'', 500 / 700, ''USD_CE500'')]"

text \<open>\<^verbatim>\<open>build_global_params\<close>: the base currency and the base period.\<close>

definition build_global_params :: "registry \<Rightarrow> error + pint_unit \<times> pint_unit" where
  "build_global_params pyunits =
     and_then (getattr pyunits ''USD_2021'') (\<lambda>base_currency.
       Inr (base_currency, pyunits_year))"

text \<open>
  The costing block is the list of its components in the order they were added. A
  variable of an expression is either one of the block's own or one from outside (the
  arguments may mention variables of the unit model).
\<close>

datatype domain = NonNegativeReals

record var_data =
  initialize :: real
  units :: pint_unit
  domain :: domain
  bounds :: "real option \<times> real option"

datatype cvar = Own string | Ext string

datatype component =
    Param real bool
  | Var var_data
  | Constraint "cvar constraint option"

type_synonym block = "(string \<times> component) list"

text \<open>
  Adding a component under a name the block already has raises. A constraint is
  attached first and constructed next, by calling its rule on the block; when the rule
  raises, the constraint stays on the block without a body.
\<close>

definition add_component :: "string \<Rightarrow> component \<Rightarrow> block \<Rightarrow> error option \<times> block" where
  "add_component name c blk =
     (if name \<in> fst ` set blk then (Some (RuntimeError name), blk)
      else (None, blk @ [(name, c)]))"

definition add_Constraint ::
  "string \<Rightarrow> (block \<Rightarrow> error + cvar constraint) \<Rightarrow> block \<Rightarrow> error option \<times> block" where
  "add_Constraint name rule blk =
     (if name \<in> fst ` set blk then (Some (RuntimeError name), blk)
      else
        (case rule (blk @ [(name, Constraint None)]) of
           Inl e \<Rightarrow> (Some e, blk @ [(name, Constraint None)])
         | Inr c \<Rightarrow> (None, blk @ [(name, Constraint (Some c))])))"

fun run :: "(block \<Rightarrow> error option \<times> block) list \<Rightarrow> block \<Rightarrow> error option \<times> block" where
  "run [] blk = (None, blk)"
| "run (step # steps) blk =
     (case step blk of
        (Some e, blk') \<Rightarrow> (Some e, blk')
      | (None, blk') \<Rightarrow> run steps blk')"

text \<open>
  \<^verbatim>\<open>blk.name\<close> inside an expression: a variable stands for itself, a parameter that is
  not mutable for its value.
\<close>

definition blk_attr :: "block \<Rightarrow> string \<Rightarrow> error + cvar expr" where
  "blk_attr blk name =
     (case map_of blk name of
        None \<Rightarrow> Inl (AttributeError name)
      | Some (Param v mutable) \<Rightarrow> Inr (Num v)
      | Some (Var d) \<Rightarrow> Inr (V (Own name))
      | Some (Constraint c) \<Rightarrow> Inl (TypeError name))"

definition var_units :: "(string \<Rightarrow> pint_unit) \<Rightarrow> block \<Rightarrow> cvar \<Rightarrow> pint_unit" where
  "var_units ext blk v =
     (case v of
        Ext n \<Rightarrow> ext n
      | Own n \<Rightarrow> (case map_of blk n of Some (Var d) \<Rightarrow> units d | _ \<Rightarrow> dimensionless))"

record vessel_args =
  volume_per_unit :: "string expr"
  material :: string
  water_injection_rate_per_unit :: "string expr"
  number_of_units :: real
  CE_index_year :: string

text \<open>The default arguments of \<^verbatim>\<open>cost_custom_vessel\<close>.\<close>

definition default_args :: vessel_args where
  "default_args =
     \<lparr>volume_per_unit = Mul (Num 1000) (Pow (U pyunits_m) 3),
      material = ''carbonsteel'',
      water_injection_rate_per_unit = Div (Mul (Num 1) (Pow (U pyunits_m) 3)) (U pyunits_s),
      number_of_units = 1,
      CE_index_year = ''2021''\<rparr>"

definition material_factor_dict :: "string \<rightharpoonup> real" where
  "material_factor_dict =
     map_of [(''carbonsteel'', 1), (''stainlessteel'', 1.5), (''aluminum'', 2)]"

definition getitem_material :: "string \<Rightarrow> error + real" where
  "getitem_material key =
     (case material_factor_dict key of None \<Rightarrow> Inl (KeyError key) | Some f \<Rightarrow> Inr f)"

definition cost_Var :: "pint_unit \<Rightarrow> component" where
  "cost_Var u =
     Var \<lparr>initialize = 1000, units = u, domain = NonNegativeReals, bounds = (Some 0, None)\<rparr>"

definition capital_cost_per_unit_eq ::
  "registry \<Rightarrow> (string \<Rightarrow> pint_unit) \<Rightarrow> vessel_args \<Rightarrow> pint_unit \<Rightarrow> block
     \<Rightarrow> error + cvar constraint" where
  "capital_cost_per_unit_eq pyunits ext a CE_index_units blk =
     and_then (getattr pyunits ''USD_custom'') (\<lambda>USD_custom.
     let ref_cost = Mul (Num 10000) (U USD_custom);
         ref_volume = Mul (Num 1000) (Pow (U pyunits_m) 3) in
     and_then (blk_attr blk ''capital_cost_per_unit'') (\<lambda>lhs.
     and_then (getitem_material (material a)) (\<lambda>factor.
     and_then (convert (var_units ext blk)
                (Mul (Mul (Num factor) ref_cost)
                   (Pow (Div (map_expr Ext (volume_per_unit a)) ref_volume) 0.6))
                (U CE_index_units)) (\<lambda>rhs.
       Inr (Eq lhs rhs)))))"

definition capital_cost_constraint :: "block \<Rightarrow> error + cvar constraint" where
  "capital_cost_constraint blk =
     and_then (blk_attr blk ''capital_cost'') (\<lambda>lhs.
     and_then (blk_attr blk ''capital_cost_per_unit'') (\<lambda>per_unit.
     and_then (blk_attr blk ''number_of_units'') (\<lambda>n.
       Inr (Eq lhs (Mul per_unit n)))))"

definition fixed_operating_cost_per_unit_eq ::
  "(string \<Rightarrow> pint_unit) \<Rightarrow> pint_unit \<Rightarrow> block \<Rightarrow> error + cvar constraint" where
  "fixed_operating_cost_per_unit_eq ext CE_index_units blk =
     and_then (blk_attr blk ''fixed_operating_cost_per_unit'') (\<lambda>lhs.
     and_then (blk_attr blk ''capital_cost'') (\<lambda>capital_cost.
     and_then (convert (var_units ext blk) (Mul (Num 0.05) capital_cost)
                (U CE_index_units)) (\<lambda>rhs.
       Inr (Eq lhs rhs))))"

definition fixed_operating_cost_constraint :: "block \<Rightarrow> error + cvar constraint" where
  "fixed_operating_cost_constraint blk =
     and_then (blk_attr blk ''fixed_operating_cost'') (\<lambda>lhs.
     and_then (blk_attr blk ''fixed_operating_cost_per_unit'') (\<lambda>per_unit.
     and_then (blk_attr blk ''number_of_units'') (\<lambda>n.
       Inr (Eq lhs (Mul per_unit n)))))"

definition variable_operating_cost_per_unit_eq ::
  "registry \<Rightarrow> (string \<Rightarrow> pint_unit) \<Rightarrow> vessel_args \<Rightarrow> pint_unit \<Rightarrow> block
     \<Rightarrow> error + cvar constraint" where
  "variable_operating_cost_per_unit_eq pyunits ext a CE_index_units blk =
     and_then (blk_attr blk ''variable_operating_cost_per_unit'') (\<lambda>lhs.
     and_then (getattr pyunits ''USD_custom'') (\<lambda>USD_custom.
     and_then (convert (var_units ext blk)
                (Mul (Div (Mul (Num 0.00190) (U USD_custom)) (U pyunits_gal))
                   (map_expr Ext (water_injection_rate_per_unit a)))
                (Div (U CE_index_units) (U pyunits_year))) (\<lambda>rhs.
       Inr (Eq lhs rhs))))"

definition variable_operating_cost_constraint :: "block \<Rightarrow> error + cvar constraint" where
  "variable_operating_cost_constraint blk =
     and_then (blk_attr blk ''variable_operating_cost'') (\<lambda>lhs.
     and_then (blk_attr blk ''variable_operating_cost_per_unit'') (\<lambda>per_unit.
     and_then (blk_attr blk ''number_of_units'') (\<lambda>n.
       Inr (Eq lhs (Mul per_unit n)))))"

text \<open>
  \<^verbatim>\<open>cost_custom_vessel\<close>, statement by statement: the exception that leaves it (\<open>None\<close>
  when it returns) and the block as it is at that moment.
\<close>

definition cost_custom_vessel ::
  "registry \<Rightarrow> (string \<Rightarrow> pint_unit) \<Rightarrow> vessel_args \<Rightarrow> block \<Rightarrow> error option \<times> block" where
  "cost_custom_vessel pyunits ext a blk =
     (case getattr pyunits (''MUSD_'' @ CE_index_year a) of
        Inl e \<Rightarrow> (Some e, blk)
      | Inr CE_index_units \<Rightarrow>
          run
            [add_component ''number_of_units'' (Param (number_of_units a) False),
             add_component ''capital_cost_per_unit'' (cost_Var CE_index_units),
             add_Constraint ''capital_cost_per_unit_eq''
               (capital_cost_per_unit_eq pyunits ext a CE_index_units),
             add_component ''capital_cost'' (cost_Var CE_index_units),
             add_Constraint ''capital_cost_constraint'' capital_cost_constraint,
             add_component ''fixed_operating_cost_per_unit'' (cost_Var CE_index_units),
             add_Constraint ''fixed_operating_cost_per_unit_eq''
               (fixed_operating_cost_per_unit_eq ext CE_index_units),
             add_component ''fixed_operating_cost'' (cost_Var CE_index_units),
             add_Constraint ''fixed_operating_cost_constraint'' fixed_operating_cost_constraint,
             add_component ''variable_operating_cost_per_unit''
               (cost_Var (unit_div CE_index_units pyunits_year)),
             add_Constraint ''variable_operating_cost_per_unit_eq''
               (variable_operating_cost_per_unit_eq pyunits ext a CE_index_units),
             add_component ''variable_operating_cost''
               (cost_Var (unit_div CE_index_units pyunits_year)),
             add_Constraint ''variable_operating_cost_constraint''
               variable_operating_cost_constraint]
            blk)"

text \<open>The names of the variables, and the body of a constraint, of a block.\<close>

definition variables :: "block \<Rightarrow> string list" where
  "variables blk = map fst (filter (\<lambda>(n, c). case c of Var d \<Rightarrow> True | _ \<Rightarrow> False) blk)"

definition constraint_body :: "block \<Rightarrow> string \<Rightarrow> cvar constraint option" where
  "constraint_body blk name =
     (case map_of blk name of Some (Constraint c) \<Rightarrow> c | _ \<Rightarrow> None)"

text \<open>
  The block that a call on a new, empty costing block leaves when every statement has
  run: \<open>ce\<close> is the unit \<^verbatim>\<open>CE_index_units\<close>, \<open>usd\<close> the unit \<^verbatim>\<open>USD_custom\<close> and \<open>f\<close> the
  material factor.
\<close>

definition built ::
  "pint_unit \<Rightarrow> pint_unit \<Rightarrow> real \<Rightarrow> (string \<Rightarrow> pint_unit) \<Rightarrow> vessel_args \<Rightarrow> block" where
  "built ce usd f ext a =
     [(''number_of_units'', Param (number_of_units a) False),
      (''capital_cost_per_unit'', cost_Var ce),
      (''capital_cost_per_unit_eq'', Constraint (Some
         (Eq (V (Own ''capital_cost_per_unit''))
           (converted
              (unit_mul usd
                 (unit_pow (unit_div (get_units ext (volume_per_unit a))
                    (Unit 1 (Dimension 0 3 0 0 0))) 0.6))
              ce
              (Mul (Mul (Num f) (Mul (Num 10000) (U usd)))
                 (Pow (Div (map_expr Ext (volume_per_unit a))
                         (Mul (Num 1000) (Pow (U pyunits_m) 3))) 0.6)))))),
      (''capital_cost'', cost_Var ce),
      (''capital_cost_constraint'', Constraint (Some
         (Eq (V (Own ''capital_cost''))
           (Mul (V (Own ''capital_cost_per_unit'')) (Num (number_of_units a)))))),
      (''fixed_operating_cost_per_unit'', cost_Var ce),
      (''fixed_operating_cost_per_unit_eq'', Constraint (Some
         (Eq (V (Own ''fixed_operating_cost_per_unit''))
           (Mul (Num 0.05) (V (Own ''capital_cost'')))))),
      (''fixed_operating_cost'', cost_Var ce),
      (''fixed_operating_cost_constraint'', Constraint (Some
         (Eq (V (Own ''fixed_operating_cost''))
           (Mul (V (Own ''fixed_operating_cost_per_unit'')) (Num (number_of_units a)))))),
      (''variable_operating_cost_per_unit'', cost_Var (unit_div ce pyunits_year)),
      (''variable_operating_cost_per_unit_eq'', Constraint (Some
         (Eq (V (Own ''variable_operating_cost_per_unit''))
           (converted
              (unit_mul (unit_div usd pyunits_gal)
                 (get_units ext (water_injection_rate_per_unit a)))
              (unit_div ce pyunits_year)
              (Mul (Div (Mul (Num 0.00190) (U usd)) (U pyunits_gal))
                 (map_expr Ext (water_injection_rate_per_unit a))))))),
      (''variable_operating_cost'', cost_Var (unit_div ce pyunits_year)),
      (''variable_operating_cost_constraint'', Constraint (Some
         (Eq (V (Own ''variable_operating_cost''))
           (Mul (V (Own ''variable_operating_cost_per_unit'')) (Num (number_of_units a))))))]"


text \<open>
  What the solver is asked for: values \<open>s\<close> of the variables under which both sides of
  a constraint have the same value, for every constraint of the block that has a body.
\<close>

definition holds :: "('v \<rightharpoonup> real) \<Rightarrow> 'v constraint \<Rightarrow> bool" where
  "holds s c =
     (case c of Eq lhs rhs \<Rightarrow>
        (case (value_of s lhs, value_of s rhs) of
           (Inr x, Inr y) \<Rightarrow> x = y
         | _ \<Rightarrow> False))"

definition satisfies :: "(cvar \<rightharpoonup> real) \<Rightarrow> block \<Rightarrow> bool" where
  "satisfies s blk =
     list_all (\<lambda>(name, c). case c of Constraint (Some e) \<Rightarrow> holds s e | _ \<Rightarrow> True) blk"

section \<open>Example inputs\<close>

text \<open>
  An inlet whose volumetric flow is in L/s and whose species mass flows are in kg/s,
  at the single time index 0, carrying 1 L/s with 0.001 kg/s of aluminum, 0.002 kg/s of
  calcium and 0.003 kg/s of iron.
\<close>

definition example_units :: "tvar \<Rightarrow> pint_unit" where
  "example_units v =
     (case v of
        In_flow_vol t \<Rightarrow> unit_div pyunits_L pyunits_s
      | In_flow_mass t j \<Rightarrow> unit_div pyunits_kg pyunits_s
      | Out_flow_mass t \<Rightarrow> unit_div pyunits_kg pyunits_s
      | Out_log10_molality_comp t i \<Rightarrow> dimensionless)"

definition example_values :: "tvar \<rightharpoonup> real" where
  "example_values =
     [In_flow_vol 0 \<mapsto> 1,
      In_flow_mass 0 ''Al'' \<mapsto> 0.001,
      In_flow_mass 0 ''Ca'' \<mapsto> 0.002,
      In_flow_mass 0 ''Fe'' \<mapsto> 0.003]"

text \<open>
  A registry of currency units: the reference dollar \<^verbatim>\<open>USD_CE500\<close> as the base unit of
  currency, \<^verbatim>\<open>USD_2021 = 500/708.0 * USD_CE500\<close> as IDAES defines it, and
  \<^verbatim>\<open>MUSD_2021\<close>, a million of those. \<open>example_pyunits\<close> is this registry after the class
  body of \<^verbatim>\<open>CustomCostingData\<close> has run.
\<close>

definition currency_units :: registry where
  "currency_units =
     [''USD_CE500'' \<mapsto> Unit 1 (Dimension 0 0 0 0 1),
      ''USD_2021'' \<mapsto> Unit (500 / 708) (Dimension 0 0 0 0 1),
      ''MUSD_2021'' \<mapsto> Unit (10 ^ 6 * (500 / 708)) (Dimension 0 0 0 0 1)]"

definition example_pyunits :: registry where
  "example_pyunits = CustomCostingData_class_body currency_units"

text \<open>
  Values of the six cost variables for the default arguments and the example registry.
\<close>

definition example_solution :: "cvar \<rightharpoonup> real" where
  "example_solution =
     [Own ''capital_cost_per_unit'' \<mapsto> 10000 * ((500 / 700) / (10 ^ 6 * (500 / 708))),
      Own ''capital_cost'' \<mapsto> 10000 * ((500 / 700) / (10 ^ 6 * (500 / 708))) * 1,
      Own ''fixed_operating_cost_per_unit'' \<mapsto>
        0.05 * (10000 * ((500 / 700) / (10 ^ 6 * (500 / 708))) * 1),
      Own ''fixed_operating_cost'' \<mapsto>
        0.05 * (10000 * ((500 / 700) / (10 ^ 6 * (500 / 708))) * 1) * 1,
      Own ''variable_operating_cost_per_unit'' \<mapsto>
        (500 / 700) / (3785411784 / 10 ^ 12) / ((10 ^ 6 * (500 / 708)) / 31557600) * 0.00190,
      Own ''variable_operating_cost'' \<mapsto>
        (500 / 700) / (3785411784 / 10 ^ 12) / ((10 ^ 6 * (500 / 708)) / 31557600) * 0.00190
          * 1]"

section \<open>Properties of the translator's constraints\<close>

lemma and_then_Inr_iff:
  "and_then r f = Inr y \<longleftrightarrow> (\<exists>x. r = Inr x \<and> f x = Inr y)"
  by (cases r) (simp_all add: and_then_def)

lemma and_then_simps [simp]:
  "and_then (Inl e) f = Inl e" "and_then (Inr x) f = f x"
  by (simp_all add: and_then_def)

lemma build_indexed_map:
  "build_indexed rule ts = Inr cs \<Longrightarrow> t \<in> set ts \<Longrightarrow>
     \<exists>c. map_of cs t = Some c \<and> rule t = Inr c"
proof (induction ts arbitrary: cs)
  case Nil
  then show ?case by simp
next
  case (Cons u ts)
  then show ?case by (auto simp: and_then_Inr_iff)
qed

lemma build_indexed_total:
  "(\<And>t. t \<in> set ts \<Longrightarrow> rule t = Inr (f t)) \<Longrightarrow>
     build_indexed rule ts = Inr (map (\<lambda>t. (t, f t)) ts)"
  by (induction ts) simp_all

lemma value_of_convert:
  assumes "convert vu src to_units = Inr e" "scale (get_units vu to_units) \<noteq> 0"
  shows "value_of s e =
     and_then (value_of s src)
       (\<lambda>x. Inr (scale (get_units vu src) / scale (get_units vu to_units) * x))"
proof (cases "get_units vu src = get_units vu to_units")
  case True
  with assms have "e = src" by (simp add: convert_def)
  with True assms(2) show ?thesis by (cases "value_of s src") simp_all
next
  case False
  with assms(1) have "e =
      Mul (Div (Mul (Num (scale (get_units vu src) / scale (get_units vu to_units)))
        (U (get_units vu to_units))) (U (get_units vu src))) src"
    by (simp add: convert_def Let_def split: if_splits)
  then show ?thesis by (cases "value_of s src") (simp_all add: py_div_def)
qed

lemma convert_converted:
  "convert vu src to_units =
     (if dims (get_units vu src) \<noteq> dims (get_units vu to_units) then Inl InconsistentUnitsError
      else Inr (converted (get_units vu src) (get_units vu to_units) src))"
  by (auto simp: convert_def converted_def Let_def)

lemma value_of_converted:
  assumes "scale tu \<noteq> 0"
  shows "value_of s (converted su tu src) =
     and_then (value_of s src) (\<lambda>x. Inr (scale su / scale tu * x))"
  using assms by (cases "value_of s src") (auto simp: converted_def py_div_def)

lemma vars_of_convert:
  assumes "convert vu src to_units = Inr e"
  shows "vars_of e = vars_of src"
  using assms by (auto simp: convert_def Let_def split: if_splits)

lemma value_of_mw [simp]:
  "value_of s mw_al = Inr 0.02698154" "value_of s mw_ca = Inr 0.03996259"
  "value_of s mw_fe = Inr 0.05593494"
  by (simp_all add: mw_al_def mw_ca_def mw_fe_def py_div_def)

lemma scale_L_per_s [simp]: "scale (unit_div pyunits_L pyunits_s) = 1 / 1000"
  by (simp add: unit_div_def pyunits_L_def pyunits_s_def)

lemma scale_kg_per_s [simp]: "scale (unit_div pyunits_kg pyunits_s) = 1"
  by (simp add: unit_div_def pyunits_kg_def pyunits_s_def)

lemma solvent_value:
  assumes "solvent_mass_flow_rule vu t = Inr m"
  shows "value_of s m =
     (case s (In_flow_vol t) of
        None \<Rightarrow> Inl (ValueError ''No value for uninitialized NumericValue object'')
      | Some q \<Rightarrow> Inr (scale (vu (In_flow_vol t)) * 1000 * q * 1.840))"
    and "vars_of m = {In_flow_vol t}"
proof -
  from assms obtain c where
    c: "convert vu (V (In_flow_vol t)) (Div (U pyunits_L) (U pyunits_s)) = Inr c"
    and m: "m = Mul c (Div (Mul (Num 1.840) (U pyunits_kg)) (U pyunits_L))"
    by (auto simp: solvent_mass_flow_rule_def and_then_Inr_iff)
  have v: "value_of s c = and_then (value_of s (V (In_flow_vol t)))
       (\<lambda>x. Inr (scale (vu (In_flow_vol t)) / (1 / 1000) * x))"
    using value_of_convert [OF c, of s] by simp
  show "value_of s m =
     (case s (In_flow_vol t) of
        None \<Rightarrow> Inl (ValueError ''No value for uninitialized NumericValue object'')
      | Some q \<Rightarrow> Inr (scale (vu (In_flow_vol t)) * 1000 * q * 1.840))"
    unfolding m by (simp add: v py_div_def split: option.splits)
  show "vars_of m = {In_flow_vol t}"
    unfolding m using vars_of_convert [OF c] by simp
qed

lemma molar_value:
  assumes "convert vu (V (In_flow_mass t j)) (Div (U pyunits_kg) (U pyunits_s)) = Inr c"
    "value_of s mw = Inr w" "w \<noteq> 0"
  shows "value_of s (Div c mw) =
     (case s (In_flow_mass t j) of
        None \<Rightarrow> Inl (ValueError ''No value for uninitialized NumericValue object'')
      | Some a \<Rightarrow> Inr (scale (vu (In_flow_mass t j)) * a / w))"
proof -
  have v: "value_of s c = and_then (value_of s (V (In_flow_mass t j)))
       (\<lambda>x. Inr (scale (vu (In_flow_mass t j)) / 1 * x))"
    using value_of_convert [OF assms(1), of s] by simp
  show ?thesis using assms(2,3) by (simp add: v py_div_def split: option.splits)
qed

lemma ratio_value:
  assumes "value_of s (Div n m) = Inr x"
    "value_of s n = (case s v of None \<Rightarrow> Inl e1 | Some a \<Rightarrow> Inr (f a))"
    "value_of s m = (case s w of None \<Rightarrow> Inl e2 | Some q \<Rightarrow> Inr (g q))"
  shows "\<exists>a q. s v = Some a \<and> s w = Some q \<and> g q \<noteq> 0 \<and> x = f a / g q"
  using assms by (auto simp: py_div_def split: option.splits if_splits)

text \<open>
  What a molality rule returns, given the molar flow and solvent mass flow expressions it
  finds on the block: the common part of the three metal rules.
\<close>

lemma molality_body:
  assumes r: "and_then (getitem nf t) (\<lambda>n.
       and_then (getitem mf t) (\<lambda>m.
       and_then (value_of s (Div n m)) (\<lambda>x.
       and_then (log10 x) (\<lambda>y.
         Inr (Eq (V (Out_log10_molality_comp t ion)) (Num y)))))) = Inr c"
    and n: "map_of nf t = Some n" "n = Div k mw"
    and k: "convert vu (V (In_flow_mass t j)) (Div (U pyunits_kg) (U pyunits_s)) = Inr k"
    and w: "value_of s mw = Inr w" "w \<noteq> 0"
    and m: "map_of mf t = Some m" "solvent_mass_flow_rule vu t = Inr m"
  shows "\<exists>a q x. s (In_flow_mass t j) = Some a \<and> s (In_flow_vol t) = Some q
     \<and> value_of s (Div n m) = Inr x \<and> 0 < x
     \<and> x = (scale (vu (In_flow_mass t j)) * a / w)
            / (scale (vu (In_flow_vol t)) * 1000 * q * 1.840)
     \<and> c = Eq (V (Out_log10_molality_comp t ion)) (Num (log 10 x))"
proof -
  from r n(1) m(1) obtain x where
    x: "value_of s (Div n m) = Inr x" "0 < x"
      "c = Eq (V (Out_log10_molality_comp t ion)) (Num (log 10 x))"
    by (auto simp: getitem_def and_then_Inr_iff log10_def split: if_splits)
  have vn: "value_of s n =
     (case s (In_flow_mass t j) of
        None \<Rightarrow> Inl (ValueError ''No value for uninitialized NumericValue object'')
      | Some a \<Rightarrow> Inr (scale (vu (In_flow_mass t j)) * a / w))"
    unfolding n(2) by (rule molar_value [OF k w])
  from ratio_value [OF x(1) vn solvent_value(1) [OF m(2)]] obtain a q where
    "s (In_flow_mass t j) = Some a" "s (In_flow_vol t) = Some q"
    "x = (scale (vu (In_flow_mass t j)) * a / w)
            / (scale (vu (In_flow_vol t)) * 1000 * q * 1.840)"
    by blast
  with x show ?thesis by blast
qed

text \<open>The components of a block that \<^verbatim>\<open>build\<close> returned, at one time index.\<close>

lemma build_solvent:
  assumes "build vu s time = Inr blk" "t \<in> set time"
  shows "\<exists>m. map_of (solvent_mass_flow blk) t = Some m \<and> solvent_mass_flow_rule vu t = Inr m
     \<and> map_of (eq_flow_mass_rule blk) t = Some (Eq (V (Out_flow_mass t)) m)"
proof -
  from assms(1) obtain c1 c2 where
    c1: "build_indexed (solvent_mass_flow_rule vu) time = Inr c1" and
    c2: "build_indexed
          (eq_flow_mass_rule_rule (empty_translator\<lparr>solvent_mass_flow := c1\<rparr>)) time = Inr c2"
    and b1: "solvent_mass_flow blk = c1" and b2: "eq_flow_mass_rule blk = c2"
    unfolding build_def and_then_Inr_iff by auto
  from build_indexed_map [OF c1 assms(2)] obtain m where
    m: "map_of c1 t = Some m" "solvent_mass_flow_rule vu t = Inr m" by blast
  from build_indexed_map [OF c2 assms(2)] obtain c where
    c: "map_of c2 t = Some c"
      "eq_flow_mass_rule_rule (empty_translator\<lparr>solvent_mass_flow := c1\<rparr>) t = Inr c"
    by blast
  from c(2) m(1) have "c = Eq (V (Out_flow_mass t)) m"
    by (simp add: eq_flow_mass_rule_rule_def getitem_def)
  with m c b1 b2 show ?thesis by simp
qed

lemma build_aluminum:
  assumes "build vu s time = Inr blk" "t \<in> set time"
  shows "\<exists>n m a q x.
       map_of (aluminum_molar_flow blk) t = Some n \<and> map_of (solvent_mass_flow blk) t = Some m
     \<and> s (In_flow_mass t ''Al'') = Some a \<and> s (In_flow_vol t) = Some q
     \<and> value_of s (Div n m) = Inr x \<and> 0 < x
     \<and> x = (scale (vu (In_flow_mass t ''Al'')) * a / 0.02698154)
            / (scale (vu (In_flow_vol t)) * 1000 * q * 1.840)
     \<and> map_of (eq_aluminum_molality blk) t =
         Some (Eq (V (Out_log10_molality_comp t ''Al^3+'')) (Num (log 10 x)))"
proof -
  from assms(1) obtain c1 c2 c3 c4 where
    c1: "build_indexed (solvent_mass_flow_rule vu) time = Inr c1" and
    c3: "build_indexed (aluminum_molar_flow_rule vu) time = Inr c3" and
    c4: "build_indexed (eq_aluminum_molality_rule s
           (empty_translator\<lparr>solvent_mass_flow := c1, eq_flow_mass_rule := c2,
              aluminum_molar_flow := c3\<rparr>)) time = Inr c4" and
    b: "solvent_mass_flow blk = c1" "aluminum_molar_flow blk = c3"
       "eq_aluminum_molality blk = c4"
    unfolding build_def and_then_Inr_iff by auto
  from build_indexed_map [OF c1 assms(2)] obtain m where
    m: "map_of c1 t = Some m" "solvent_mass_flow_rule vu t = Inr m" by blast
  from build_indexed_map [OF c3 assms(2)] obtain n where
    n: "map_of c3 t = Some n" "aluminum_molar_flow_rule vu t = Inr n" by blast
  from build_indexed_map [OF c4 assms(2)] obtain c where
    c: "map_of c4 t = Some c" "eq_aluminum_molality_rule s
           (empty_translator\<lparr>solvent_mass_flow := c1, eq_flow_mass_rule := c2,
              aluminum_molar_flow := c3\<rparr>) t = Inr c" by blast
  from n(2) obtain k where
    k: "convert vu (V (In_flow_mass t ''Al'')) (Div (U pyunits_kg) (U pyunits_s)) = Inr k"
      "n = Div k mw_al"
    by (auto simp: aluminum_molar_flow_rule_def and_then_Inr_iff)
  from c(2) have r: "and_then (getitem c3 t) (\<lambda>n.
       and_then (getitem c1 t) (\<lambda>m.
       and_then (value_of s (Div n m)) (\<lambda>x.
       and_then (log10 x) (\<lambda>y.
         Inr (Eq (V (Out_log10_molality_comp t ''Al^3+'')) (Num y)))))) = Inr c"
    by (simp add: eq_aluminum_molality_rule_def)
  have w: "value_of s mw_al = Inr 0.02698154" "(0.02698154::real) \<noteq> 0" by simp_all
  from molality_body [OF r n(1) k(2) k(1) w m] c(1) m(1) n(1) b
  show ?thesis by auto
qed

lemma build_calcium:
  assumes "build vu s time = Inr blk" "t \<in> set time"
  shows "\<exists>n m a q x.
       map_of (calcium_molar_flow blk) t = Some n \<and> map_of (solvent_mass_flow blk) t = Some m
     \<and> s (In_flow_mass t ''Ca'') = Some a \<and> s (In_flow_vol t) = Some q
     \<and> value_of s (Div n m) = Inr x \<and> 0 < x
     \<and> x = (scale (vu (In_flow_mass t ''Ca'')) * a / 0.03996259)
            / (scale (vu (In_flow_vol t)) * 1000 * q * 1.840)
     \<and> map_of (eq_calcium_molality blk) t =
         Some (Eq (V (Out_log10_molality_comp t ''Ca^2+'')) (Num (log 10 x)))"
proof -
  from assms(1) obtain c1 c2 c3 c4 c5 c6 where
    c1: "build_indexed (solvent_mass_flow_rule vu) time = Inr c1" and
    c5: "build_indexed (calcium_molar_flow_rule vu) time = Inr c5" and
    c6: "build_indexed (eq_calcium_molality_rule s
           (empty_translator\<lparr>solvent_mass_flow := c1, eq_flow_mass_rule := c2,
              aluminum_molar_flow := c3, eq_aluminum_molality := c4,
              calcium_molar_flow := c5\<rparr>)) time = Inr c6" and
    b: "solvent_mass_flow blk = c1" "calcium_molar_flow blk = c5"
       "eq_calcium_molality blk = c6"
    unfolding build_def and_then_Inr_iff by auto
  from build_indexed_map [OF c1 assms(2)] obtain m where
    m: "map_of c1 t = Some m" "solvent_mass_flow_rule vu t = Inr m" by blast
  from build_indexed_map [OF c5 assms(2)] obtain n where
    n: "map_of c5 t = Some n" "calcium_molar_flow_rule vu t = Inr n" by blast
  from build_indexed_map [OF c6 assms(2)] obtain c where
    c: "map_of c6 t = Some c" "eq_calcium_molality_rule s
           (empty_translator\<lparr>solvent_mass_flow := c1, eq_flow_mass_rule := c2,
              aluminum_molar_flow := c3, eq_aluminum_molality := c4,
              calcium_molar_flow := c5\<rparr>) t = Inr c" by blast
  from n(2) obtain k where
    k: "convert vu (V (In_flow_mass t ''Ca'')) (Div (U pyunits_kg) (U pyunits_s)) = Inr k"
      "n = Div k mw_ca"
    by (auto simp: calcium_molar_flow_rule_def and_then_Inr_iff)
  from c(2) have r: "and_then (getitem c5 t) (\<lambda>n.
       and_then (getitem c1 t) (\<lambda>m.
       and_then (value_of s (Div n m)) (\<lambda>x.
       and_then (log10 x) (\<lambda>y.
         Inr (Eq (V (Out_log10_molality_comp t ''Ca^2+'')) (Num y)))))) = Inr c"
    by (simp add: eq_calcium_molality_rule_def)
  have w: "value_of s mw_ca = Inr 0.03996259" "(0.03996259::real) \<noteq> 0" by simp_all
  from molality_body [OF r n(1) k(2) k(1) w m] c(1) m(1) n(1) b
  show ?thesis by auto
qed

lemma build_iron:
  assumes "build vu s time = Inr blk" "t \<in> set time"
  shows "\<exists>n m a q x.
       map_of (iron_molar_flow blk) t = Some n \<and> map_of (solvent_mass_flow blk) t = Some m
     \<and> s (In_flow_mass t ''Fe'') = Some a \<and> s (In_flow_vol t) = Some q
     \<and> value_of s (Div n m) = Inr x \<and> 0 < x
     \<and> x = (scale (vu (In_flow_mass t ''Fe'')) * a / 0.05593494)
            / (scale (vu (In_flow_vol t)) * 1000 * q * 1.840)
     \<and> map_of (eq_iron_molality blk) t =
         Some (Eq (V (Out_log10_molality_comp t ''Fe^3+'')) (Num (log 10 x)))"
proof -
  from assms(1) obtain c1 c2 c3 c4 c5 c6 c7 c8 where
    c1: "build_indexed (solvent_mass_flow_rule vu) time = Inr c1" and
    c7: "build_indexed (iron_molar_flow_rule vu) time = Inr c7" and
    c8: "build_indexed (eq_iron_molality_rule s
           (empty_translator\<lparr>solvent_mass_flow := c1, eq_flow_mass_rule := c2,
              aluminum_molar_flow := c3, eq_aluminum_molality := c4,
              calcium_molar_flow := c5, eq_calcium_molality := c6,
              iron_molar_flow := c7\<rparr>)) time = Inr c8" and
    b: "solvent_mass_flow blk = c1" "iron_molar_flow blk = c7"
       "eq_iron_molality blk = c8"
    unfolding build_def and_then_Inr_iff by auto
  from build_indexed_map [OF c1 assms(2)] obtain m where
    m: "map_of c1 t = Some m" "solvent_mass_flow_rule vu t = Inr m" by blast
  from build_indexed_map [OF c7 assms(2)] obtain n where
    n: "map_of c7 t = Some n" "iron_molar_flow_rule vu t = Inr n" by blast
  from build_indexed_map [OF c8 assms(2)] obtain c where
    c: "map_of c8 t = Some c" "eq_iron_molality_rule s
           (empty_translator\<lparr>solvent_mass_flow := c1, eq_flow_mass_rule := c2,
              aluminum_molar_flow := c3, eq_aluminum_molality := c4,
              calcium_molar_flow := c5, eq_calcium_molality := c6,
              iron_molar_flow := c7\<rparr>) t = Inr c" by blast
  from n(2) obtain k where
    k: "convert vu (V (In_flow_mass t ''Fe'')) (Div (U pyunits_kg) (U pyunits_s)) = Inr k"
      "n = Div k mw_fe"
    by (auto simp: iron_molar_flow_rule_def and_then_Inr_iff)
  from c(2) have r: "and_then (getitem c7 t) (\<lambda>n.
       and_then (getitem c1 t) (\<lambda>m.
       and_then (value_of s (Div n m)) (\<lambda>x.
       and_then (log10 x) (\<lambda>y.
         Inr (Eq (V (Out_log10_molality_comp t ''Fe^3+'')) (Num y)))))) = Inr c"
    by (simp add: eq_iron_molality_rule_def)
  have w: "value_of s mw_fe = Inr 0.05593494" "(0.05593494::real) \<noteq> 0" by simp_all
  from molality_body [OF r n(1) k(2) k(1) w m] c(1) m(1) n(1) b
  show ?thesis by auto
qed

text \<open>Bounds on a decimal logarithm from a power of its argument.\<close>

lemma log10_lower:
  fixes y :: real
  assumes "0 < y" "0 < (n::nat)" "10 ^ k < y ^ n"
  shows "real k / real n < log 10 y"
proof -
  have "log 10 (10 ^ k) < log 10 (y ^ n)"
    using assms by (subst log_less_cancel_iff) simp_all
  moreover have "log 10 (y ^ n) = real n * log 10 y"
    using assms by (simp add: log_nat_power)
  ultimately have "real k < real n * log 10 y" by simp
  then show ?thesis using assms(2) by (simp add: field_simps)
qed

lemma log10_upper:
  fixes y :: real
  assumes "0 < y" "0 < (n::nat)" "y ^ n < 10 ^ k"
  shows "log 10 y < real k / real n"
proof -
  have "log 10 (y ^ n) < log 10 (10 ^ k)"
    using assms by (subst log_less_cancel_iff) simp_all
  moreover have "log 10 (y ^ n) = real n * log 10 y"
    using assms by (simp add: log_nat_power)
  ultimately have "real n * log 10 y < real k" by simp
  then show ?thesis using assms(2) by (simp add: field_simps)
qed

lemma al_pow_125: "(10::real) ^ 38 < (62500000 / 31028771) ^ 125"
proof -
  let ?y = "62500000 / 31028771 :: real"
  have y: "(201425 / 100000 :: real) \<le> ?y" by simp
  have "(3315 / 100 :: real) \<le> (201425 / 100000) ^ 5" by (simp add: power_divide)
  also have "\<dots> \<le> ?y ^ 5" by (rule power_mono [OF y]) simp
  finally have y5: "(3315 / 100 :: real) \<le> ?y ^ 5" .
  have "(40000000 :: real) \<le> (3315 / 100) ^ 5" by (simp add: power_divide)
  also have "\<dots> \<le> (?y ^ 5) ^ 5" by (rule power_mono [OF y5]) simp
  finally have y25: "(40000000 :: real) \<le> (?y ^ 5) ^ 5" .
  have "(10::real) ^ 38 < 40000000 ^ 5" by simp
  also have "\<dots> \<le> ((?y ^ 5) ^ 5) ^ 5" by (rule power_mono [OF y25]) simp
  also have "\<dots> = ?y ^ 125" by (simp only: power_mult [symmetric]) simp
  finally show ?thesis .
qed

lemma al_pow_23: "(62500000 / 31028771 :: real) ^ 23 < 10 ^ 7"
proof -
  let ?y = "62500000 / 31028771 :: real"
  have y: "?y \<le> 201426 / 100000" by simp
  have "?y ^ 23 \<le> (201426 / 100000) ^ 23" by (rule power_mono [OF y]) simp
  also have "\<dots> < 10 ^ 7" by (simp add: power_divide)
  finally show ?thesis .
qed

lemma al_target_bounds:
  "- 1.696 < log 10 ((0.001 / 0.02698154) / 1.840 :: real)"
  "log 10 ((0.001 / 0.02698154) / 1.840 :: real) < - 1.695"
proof -
  let ?y = "62500000 / 31028771 :: real"
  have eq: "((0.001 / 0.02698154) / 1.840 :: real) = ?y / 10 ^ 2" by simp
  have h: "log 10 (100::real) = 2"
    using log_pow_cancel [of "10::real" 2] by simp
  have l: "log 10 (?y / 10 ^ 2) = log 10 ?y - 2"
    by (subst log_divide) (simp_all add: h)
  have "real 38 / real 125 < log 10 ?y"
    by (rule log10_lower [OF _ _ al_pow_125]) simp_all
  then show "- 1.696 < log 10 ((0.001 / 0.02698154) / 1.840 :: real)"
    unfolding eq l by simp
  have "log 10 ?y < real 7 / real 23"
    by (rule log10_upper [OF _ _ al_pow_23]) simp_all
  then show "log 10 ((0.001 / 0.02698154) / 1.840 :: real) < - 1.695"
    unfolding eq l by simp
qed

lemma hydrogen_target: "log 10 (10 powr (- pH)) = - 2.5"
  by (simp add: pH_def)

lemma hydroxide_target: "log 10 (Kw / 10 powr (- pH)) = - 11.5"
proof -
  have p14: "(10::real) powr (- 14) = 1 / 10 ^ 14"
    by (simp add: powr_minus_divide)
  have "Kw / 10 powr (- pH) = 10 powr (- 14) / 10 powr (- 2.5)"
    unfolding Kw_def pH_def p14 by (rule refl)
  also have "\<dots> = 10 powr (- 14 - (- 2.5))"
    by (simp only: powr_diff)
  also have "\<dots> = 10 powr (- 11.5)" by (simp del: powr_minus)
  finally have "Kw / 10 powr (- pH) = 10 powr (- 11.5)" .
  then have "log 10 (Kw / 10 powr (- pH)) = log 10 (10 powr (- 11.5))" by (rule arg_cong)
  also have "\<dots> = - 11.5" by (rule log_powr_cancel) simp_all
  finally show ?thesis .
qed

lemma eq_hydrogen_molality_rule_const:
  "eq_hydrogen_molality_rule t =
     Inr (Eq (V (Out_log10_molality_comp t ''H^+'')) (Num (- 2.5)))"
  by (simp add: eq_hydrogen_molality_rule_def py_pow_def log10_def pH_def)

lemma eq_hydroxide_molality_rule_const:
  "eq_hydroxide_molality_rule t =
     Inr (Eq (V (Out_log10_molality_comp t ''OH^-'')) (Num (- 11.5)))"
proof -
  have pos: "0 < Kw / 10 powr (- pH)" by (simp add: Kw_def)
  have "py_pow 10 (- pH) = Inr (10 powr (- pH))" by (simp add: py_pow_def)
  moreover have "py_div Kw (10 powr (- pH)) = Inr (Kw / 10 powr (- pH))"
    by (simp add: py_div_def)
  moreover have "log10 (Kw / 10 powr (- pH)) = Inr (- 11.5)"
    using pos hydroxide_target by (simp add: log10_def)
  ultimately show ?thesis by (simp add: eq_hydroxide_molality_rule_def)
qed

lemma example_build: "\<exists>blk. build example_units example_values [0] = Inr blk"
  by (simp add: build_def solvent_mass_flow_rule_def eq_flow_mass_rule_rule_def
      aluminum_molar_flow_rule_def calcium_molar_flow_rule_def iron_molar_flow_rule_def
      eq_aluminum_molality_rule_def eq_calcium_molality_rule_def eq_iron_molality_rule_def
      eq_hydrogen_molality_rule_const eq_hydroxide_molality_rule_const
      empty_translator_def getitem_def convert_def example_units_def example_values_def
      py_div_def log10_def mw_al_def mw_ca_def mw_fe_def)

text \<open>\<^verbatim>\<open>build\<close> returns a block on well-posed inputs.\<close>

lemma build_indexed_ex:
  "\<forall>t\<in>set ts. \<exists>c. rule t = Inr c \<Longrightarrow> \<exists>cs. build_indexed rule ts = Inr cs"
proof (induction ts)
  case Nil
  then show ?case by simp
next
  case (Cons t ts)
  then obtain c cs where "rule t = Inr c" "build_indexed rule ts = Inr cs"
    by auto
  then show ?case by simp
qed

lemma well_posed_vol:
  assumes "well_posed vu s t"
  shows "0 < scale (vu (In_flow_vol t)) \<and> (\<exists>q. s (In_flow_vol t) = Some q \<and> 0 < q)"
  using assms by (cases "s (In_flow_vol t)") (simp_all add: well_posed_def)

lemma well_posed_mass:
  assumes "well_posed vu s t" "j \<in> {''Al'', ''Ca'', ''Fe''}"
  shows "dims (vu (In_flow_mass t j)) = Dimension 1 0 (- 1) 0 0
      \<and> 0 < scale (vu (In_flow_mass t j)) \<and> (\<exists>a. s (In_flow_mass t j) = Some a \<and> 0 < a)"
proof -
  from assms have "dims (vu (In_flow_mass t j)) = Dimension 1 0 (- 1) 0 0
      \<and> 0 < scale (vu (In_flow_mass t j))
      \<and> (case s (In_flow_mass t j) of None \<Rightarrow> False | Some a \<Rightarrow> 0 < a)"
    unfolding well_posed_def by auto
  then show ?thesis by (cases "s (In_flow_mass t j)") simp_all
qed

lemma solvent_rule_ok:
  assumes "well_posed vu s t"
  shows "\<exists>m. solvent_mass_flow_rule vu t = Inr m"
  using assms
  by (simp add: well_posed_def solvent_mass_flow_rule_def convert_converted unit_div_def
      pyunits_L_def pyunits_s_def)

lemma molar_rule_ok:
  assumes "dims (vu (In_flow_mass t j)) = Dimension 1 0 (- 1) 0 0"
  shows "\<exists>k. convert vu (V (In_flow_mass t j)) (Div (U pyunits_kg) (U pyunits_s)) = Inr k"
  using assms
  by (simp add: convert_converted unit_div_def pyunits_kg_def pyunits_s_def)

lemma molality_body_ok:
  assumes n: "map_of nf t = Some (Div k mw)"
    and k: "convert vu (V (In_flow_mass t j)) (Div (U pyunits_kg) (U pyunits_s)) = Inr k"
    and w: "value_of s mw = Inr w" "0 < w"
    and m: "map_of mf t = Some m" "solvent_mass_flow_rule vu t = Inr m"
    and a: "s (In_flow_mass t j) = Some a" "0 < a" "0 < scale (vu (In_flow_mass t j))"
    and q: "s (In_flow_vol t) = Some q" "0 < q" "0 < scale (vu (In_flow_vol t))"
  shows "\<exists>c. and_then (getitem nf t) (\<lambda>n.
       and_then (getitem mf t) (\<lambda>m.
       and_then (value_of s (Div n m)) (\<lambda>x.
       and_then (log10 x) (\<lambda>y.
         Inr (Eq (V (Out_log10_molality_comp t ion)) (Num y)))))) = Inr c"
proof -
  have vn: "value_of s (Div k mw) = Inr (scale (vu (In_flow_mass t j)) * a / w)"
    using molar_value [OF k w(1), of ] w(2) a(1) by simp
  have vm: "value_of s m = Inr (scale (vu (In_flow_vol t)) * 1000 * q * 1.840)"
    using solvent_value(1) [OF m(2), of s] q(1) by simp
  have pos: "0 < scale (vu (In_flow_vol t)) * 1000 * q * 1.840"
    using q(2,3) by simp
  have posn: "0 < scale (vu (In_flow_mass t j)) * a / w"
    using a(2,3) w(2) by simp
  have "value_of s (Div (Div k mw) m) =
      and_then (value_of s (Div k mw)) (\<lambda>x. and_then (value_of s m) (\<lambda>y. py_div x y))"
    by (rule value_of.simps)
  also have "\<dots> = Inr ((scale (vu (In_flow_mass t j)) * a / w)
            / (scale (vu (In_flow_vol t)) * 1000 * q * 1.840))"
    unfolding vn vm using q(2,3) by (simp add: py_div_def)
  finally have "value_of s (Div (Div k mw) m) =
      Inr ((scale (vu (In_flow_mass t j)) * a / w)
            / (scale (vu (In_flow_vol t)) * 1000 * q * 1.840))" .
  moreover have "0 < (scale (vu (In_flow_mass t j)) * a / w)
            / (scale (vu (In_flow_vol t)) * 1000 * q * 1.840)"
    by (rule divide_pos_pos [OF posn pos])
  ultimately show ?thesis
    using n m(1) by (simp add: getitem_def log10_def del: value_of.simps)
qed

lemma metal_rule_ok:
  assumes c1: "build_indexed (solvent_mass_flow_rule vu) time = Inr c1"
    and c3: "build_indexed molar_rule time = Inr c3"
    and mr: "\<And>t. molar_rule t =
        and_then (convert vu (V (In_flow_mass t j)) (Div (U pyunits_kg) (U pyunits_s)))
          (\<lambda>c. Inr (Div c mw))"
    and w: "value_of s mw = Inr w" "0 < w"
    and t: "t \<in> set time"
    and a: "s (In_flow_mass t j) = Some a" "0 < a" "0 < scale (vu (In_flow_mass t j))"
    and q: "s (In_flow_vol t) = Some q" "0 < q" "0 < scale (vu (In_flow_vol t))"
  shows "\<exists>c. and_then (getitem c3 t) (\<lambda>n.
       and_then (getitem c1 t) (\<lambda>m.
       and_then (value_of s (Div n m)) (\<lambda>x.
       and_then (log10 x) (\<lambda>y.
         Inr (Eq (V (Out_log10_molality_comp t ion)) (Num y)))))) = Inr c"
proof -
  from build_indexed_map [OF c1 t] obtain m where
    m: "map_of c1 t = Some m" "solvent_mass_flow_rule vu t = Inr m" by blast
  from build_indexed_map [OF c3 t] obtain n where
    n: "map_of c3 t = Some n" "molar_rule t = Inr n" by blast
  from n(2) obtain k where
    k: "convert vu (V (In_flow_mass t j)) (Div (U pyunits_kg) (U pyunits_s)) = Inr k"
      "n = Div k mw"
    unfolding mr by (auto simp: and_then_Inr_iff)
  from n(1) k(2) have n': "map_of c3 t = Some (Div k mw)" by simp
  show ?thesis by (rule molality_body_ok [OF n' k(1) w m a q])
qed

lemma build_returns:
  assumes "\<forall>t\<in>set time. well_posed vu s t"
  shows "\<exists>blk. build vu s time = Inr blk"
proof -
  have wp: "\<And>t j. t \<in> set time \<Longrightarrow> j \<in> {''Al'', ''Ca'', ''Fe''} \<Longrightarrow>
      dims (vu (In_flow_mass t j)) = Dimension 1 0 (- 1) 0 0
      \<and> 0 < scale (vu (In_flow_mass t j)) \<and> (\<exists>a. s (In_flow_mass t j) = Some a \<and> 0 < a)"
    using assms well_posed_mass by blast
  have wq: "\<And>t. t \<in> set time \<Longrightarrow>
      0 < scale (vu (In_flow_vol t)) \<and> (\<exists>q. s (In_flow_vol t) = Some q \<and> 0 < q)"
    using assms well_posed_vol by blast
  have "\<forall>t\<in>set time. \<exists>c. solvent_mass_flow_rule vu t = Inr c"
    using solvent_rule_ok assms by blast
  with build_indexed_ex [of time "solvent_mass_flow_rule vu"] obtain c1 where
    c1: "build_indexed (solvent_mass_flow_rule vu) time = Inr c1" by blast
  have g1: "\<And>t. t \<in> set time \<Longrightarrow>
      \<exists>m. map_of c1 t = Some m \<and> solvent_mass_flow_rule vu t = Inr m"
    using build_indexed_map [OF c1] by blast
  define b1 where "b1 = empty_translator\<lparr>solvent_mass_flow := c1\<rparr>"
  have "\<forall>t\<in>set time. \<exists>c. eq_flow_mass_rule_rule b1 t = Inr c"
    using g1 by (fastforce simp: eq_flow_mass_rule_rule_def getitem_def b1_def)
  with build_indexed_ex [of time "eq_flow_mass_rule_rule b1"] obtain c2 where
    c2: "build_indexed (eq_flow_mass_rule_rule b1) time = Inr c2" by blast
  have "\<forall>t\<in>set time. \<exists>c. aluminum_molar_flow_rule vu t = Inr c"
    using wp molar_rule_ok [of vu _ "''Al''"] by (fastforce simp: aluminum_molar_flow_rule_def)
  with build_indexed_ex [of time "aluminum_molar_flow_rule vu"] obtain c3 where
    c3: "build_indexed (aluminum_molar_flow_rule vu) time = Inr c3" by blast
  define b3 where "b3 = empty_translator\<lparr>solvent_mass_flow := c1, eq_flow_mass_rule := c2,
              aluminum_molar_flow := c3\<rparr>"
  have "\<forall>t\<in>set time. \<exists>c. eq_aluminum_molality_rule s b3 t = Inr c"
  proof
    fix t assume t: "t \<in> set time"
    from wp [OF t, of "''Al''"] wq [OF t] obtain a q where
      "s (In_flow_mass t ''Al'') = Some a" "0 < a" "0 < scale (vu (In_flow_mass t ''Al''))"
      "s (In_flow_vol t) = Some q" "0 < q" "0 < scale (vu (In_flow_vol t))" by auto
    from metal_rule_ok [OF c1 c3 aluminum_molar_flow_rule_def value_of_mw(1) _ t this]
    show "\<exists>c. eq_aluminum_molality_rule s b3 t = Inr c"
      by (simp add: eq_aluminum_molality_rule_def b3_def)
  qed
  with build_indexed_ex [of time "eq_aluminum_molality_rule s b3"] obtain c4 where
    c4: "build_indexed (eq_aluminum_molality_rule s b3) time = Inr c4" by blast
  have "\<forall>t\<in>set time. \<exists>c. calcium_molar_flow_rule vu t = Inr c"
    using wp molar_rule_ok [of vu _ "''Ca''"] by (fastforce simp: calcium_molar_flow_rule_def)
  with build_indexed_ex [of time "calcium_molar_flow_rule vu"] obtain c5 where
    c5: "build_indexed (calcium_molar_flow_rule vu) time = Inr c5" by blast
  define b5 where "b5 = empty_translator\<lparr>solvent_mass_flow := c1, eq_flow_mass_rule := c2,
              aluminum_molar_flow := c3, eq_aluminum_molality := c4,
              calcium_molar_flow := c5\<rparr>"
  have "\<forall>t\<in>set time. \<exists>c. eq_calcium_molality_rule s b5 t = Inr c"
  proof
    fix t assume t: "t \<in> set time"
    from wp [OF t, of "''Ca''"] wq [OF t] obtain a q where
      "s (In_flow_mass t ''Ca'') = Some a" "0 < a" "0 < scale (vu (In_flow_mass t ''Ca''))"
      "s (In_flow_vol t) = Some q" "0 < q" "0 < scale (vu (In_flow_vol t))" by auto
    from metal_rule_ok [OF c1 c5 calcium_molar_flow_rule_def value_of_mw(2) _ t this]
    show "\<exists>c. eq_calcium_molality_rule s b5 t = Inr c"
      by (simp add: eq_calcium_molality_rule_def b5_def)
  qed
  with build_indexed_ex [of time "eq_calcium_molality_rule s b5"] obtain c6 where
    c6: "build_indexed (eq_calcium_molality_rule s b5) time = Inr c6" by blast
  have "\<forall>t\<in>set time. \<exists>c. iron_molar_flow_rule vu t = Inr c"
    using wp molar_rule_ok [of vu _ "''Fe''"] by (fastforce simp: iron_molar_flow_rule_def)
  with build_indexed_ex [of time "iron_molar_flow_rule vu"] obtain c7 where
    c7: "build_indexed (iron_molar_flow_rule vu) time = Inr c7" by blast
  define b7 where "b7 = empty_translator\<lparr>solvent_mass_flow := c1, eq_flow_mass_rule := c2,
              aluminum_molar_flow := c3, eq_aluminum_molality := c4,
              calcium_molar_flow := c5, eq_calcium_molality := c6,
              iron_molar_flow := c7\<rparr>"
  have "\<forall>t\<in>set time. \<exists>c. eq_iron_molality_rule s b7 t = Inr c"
  proof
    fix t assume t: "t \<in> set time"
    from wp [OF t, of "''Fe''"] wq [OF t] obtain a q where
      "s (In_flow_mass t ''Fe'') = Some a" "0 < a" "0 < scale (vu (In_flow_mass t ''Fe''))"
      "s (In_flow_vol t) = Some q" "0 < q" "0 < scale (vu (In_flow_vol t))" by auto
    from metal_rule_ok [OF c1 c7 iron_molar_flow_rule_def value_of_mw(3) _ t this]
    show "\<exists>c. eq_iron_molality_rule s b7 t = Inr c"
      by (simp add: eq_iron_molality_rule_def b7_def)
  qed
  with build_indexed_ex [of time "eq_iron_molality_rule s b7"] obtain c8 where
    c8: "build_indexed (eq_iron_molality_rule s b7) time = Inr c8" by blast
  have c9: "build_indexed eq_hydrogen_molality_rule time =
      Inr (map (\<lambda>t. (t, Eq (V (Out_log10_molality_comp t ''H^+'')) (Num (- 2.5)))) time)"
    by (rule build_indexed_total) (rule eq_hydrogen_molality_rule_const)
  have c10: "build_indexed eq_hydroxide_molality_rule time =
      Inr (map (\<lambda>t. (t, Eq (V (Out_log10_molality_comp t ''OH^-'')) (Num (- 11.5)))) time)"
    by (rule build_indexed_total) (rule eq_hydroxide_molality_rule_const)
  show ?thesis
    unfolding build_def
    using c1 c2 c3 c4 c5 c6 c7 c8 c9 c10
    by (simp add: b1_def b3_def b5_def b7_def)
qed

text \<open>
  C1. In a block that \<^verbatim>\<open>build\<close> returned, at every time index, the constraint of each
  of the three metals equates the downstream \<^verbatim>\<open>log10_molality_comp\<close> entry to a number:
  the decimal logarithm of the value that molar flow over solvent mass flow had, under
  the variable values of the moment \<^verbatim>\<open>build\<close> ran. That value is the species mass flow
  in kg/s over the molecular weight, over the volumetric flow in L/s times 1.840. In
  particular, with a volumetric flow of 1 L/s and 0.001 kg/s of aluminum, the target of
  \<^verbatim>\<open>log10_molality_comp["Al^3+"]\<close> is \<open>log 10 ((0.001 / 0.02698154) / 1.840)\<close>, which
  lies between -1.696 and -1.695.
\<close>

theorem C1_metal_molality_targets_fixed_at_build:
  assumes "build vu s time = Inr blk" and "t \<in> set time"
  shows
   "(\<exists>n m a q x.
       map_of (aluminum_molar_flow blk) t = Some n \<and> map_of (solvent_mass_flow blk) t = Some m
     \<and> s (In_flow_mass t ''Al'') = Some a \<and> s (In_flow_vol t) = Some q
     \<and> value_of s (Div n m) = Inr x \<and> 0 < x
     \<and> x = (scale (vu (In_flow_mass t ''Al'')) * a / 0.02698154)
            / (scale (vu (In_flow_vol t)) * 1000 * q * 1.840)
     \<and> map_of (eq_aluminum_molality blk) t =
         Some (Eq (V (Out_log10_molality_comp t ''Al^3+'')) (Num (log 10 x))))
  \<and> (\<exists>n m a q x.
       map_of (calcium_molar_flow blk) t = Some n \<and> map_of (solvent_mass_flow blk) t = Some m
     \<and> s (In_flow_mass t ''Ca'') = Some a \<and> s (In_flow_vol t) = Some q
     \<and> value_of s (Div n m) = Inr x \<and> 0 < x
     \<and> x = (scale (vu (In_flow_mass t ''Ca'')) * a / 0.03996259)
            / (scale (vu (In_flow_vol t)) * 1000 * q * 1.840)
     \<and> map_of (eq_calcium_molality blk) t =
         Some (Eq (V (Out_log10_molality_comp t ''Ca^2+'')) (Num (log 10 x))))
  \<and> (\<exists>n m a q x.
       map_of (iron_molar_flow blk) t = Some n \<and> map_of (solvent_mass_flow blk) t = Some m
     \<and> s (In_flow_mass t ''Fe'') = Some a \<and> s (In_flow_vol t) = Some q
     \<and> value_of s (Div n m) = Inr x \<and> 0 < x
     \<and> x = (scale (vu (In_flow_mass t ''Fe'')) * a / 0.05593494)
            / (scale (vu (In_flow_vol t)) * 1000 * q * 1.840)
     \<and> map_of (eq_iron_molality blk) t =
         Some (Eq (V (Out_log10_molality_comp t ''Fe^3+'')) (Num (log 10 x))))
  \<and> (vu (In_flow_vol t) = unit_div pyunits_L pyunits_s
       \<and> vu (In_flow_mass t ''Al'') = unit_div pyunits_kg pyunits_s
       \<and> s (In_flow_vol t) = Some 1 \<and> s (In_flow_mass t ''Al'') = Some 0.001 \<longrightarrow>
         map_of (eq_aluminum_molality blk) t =
           Some (Eq (V (Out_log10_molality_comp t ''Al^3+''))
                   (Num (log 10 ((0.001 / 0.02698154) / 1.840))))
       \<and> - 1.696 < log 10 ((0.001 / 0.02698154) / 1.840 :: real)
       \<and> log 10 ((0.001 / 0.02698154) / 1.840 :: real) < - 1.695)"
proof (intro conjI impI)
  show "\<exists>n m a q x.
       map_of (aluminum_molar_flow blk) t = Some n \<and> map_of (solvent_mass_flow blk) t = Some m
     \<and> s (In_flow_mass t ''Al'') = Some a \<and> s (In_flow_vol t) = Some q
     \<and> value_of s (Div n m) = Inr x \<and> 0 < x
     \<and> x = (scale (vu (In_flow_mass t ''Al'')) * a / 0.02698154)
            / (scale (vu (In_flow_vol t)) * 1000 * q * 1.840)
     \<and> map_of (eq_aluminum_molality blk) t =
         Some (Eq (V (Out_log10_molality_comp t ''Al^3+'')) (Num (log 10 x)))"
    by (rule build_aluminum [OF assms])
  show "\<exists>n m a q x.
       map_of (calcium_molar_flow blk) t = Some n \<and> map_of (solvent_mass_flow blk) t = Some m
     \<and> s (In_flow_mass t ''Ca'') = Some a \<and> s (In_flow_vol t) = Some q
     \<and> value_of s (Div n m) = Inr x \<and> 0 < x
     \<and> x = (scale (vu (In_flow_mass t ''Ca'')) * a / 0.03996259)
            / (scale (vu (In_flow_vol t)) * 1000 * q * 1.840)
     \<and> map_of (eq_calcium_molality blk) t =
         Some (Eq (V (Out_log10_molality_comp t ''Ca^2+'')) (Num (log 10 x)))"
    by (rule build_calcium [OF assms])
  show "\<exists>n m a q x.
       map_of (iron_molar_flow blk) t = Some n \<and> map_of (solvent_mass_flow blk) t = Some m
     \<and> s (In_flow_mass t ''Fe'') = Some a \<and> s (In_flow_vol t) = Some q
     \<and> value_of s (Div n m) = Inr x \<and> 0 < x
     \<and> x = (scale (vu (In_flow_mass t ''Fe'')) * a / 0.05593494)
            / (scale (vu (In_flow_vol t)) * 1000 * q * 1.840)
     \<and> map_of (eq_iron_molality blk) t =
         Some (Eq (V (Out_log10_molality_comp t ''Fe^3+'')) (Num (log 10 x)))"
    by (rule build_iron [OF assms])
next
  assume ex: "vu (In_flow_vol t) = unit_div pyunits_L pyunits_s
       \<and> vu (In_flow_mass t ''Al'') = unit_div pyunits_kg pyunits_s
       \<and> s (In_flow_vol t) = Some 1 \<and> s (In_flow_mass t ''Al'') = Some 0.001"
  from build_aluminum [OF assms] obtain a q x where
    a: "s (In_flow_mass t ''Al'') = Some a" and q: "s (In_flow_vol t) = Some q" and
    x: "x = (scale (vu (In_flow_mass t ''Al'')) * a / 0.02698154)
            / (scale (vu (In_flow_vol t)) * 1000 * q * 1.840)" and
    c: "map_of (eq_aluminum_molality blk) t =
         Some (Eq (V (Out_log10_molality_comp t ''Al^3+'')) (Num (log 10 x)))"
    by blast
  from ex a q have "a = 0.001" "q = 1" by simp_all
  with ex have "x = (0.001 / 0.02698154) / 1.840"
    unfolding x by simp
  with c show "map_of (eq_aluminum_molality blk) t =
           Some (Eq (V (Out_log10_molality_comp t ''Al^3+''))
                   (Num (log 10 ((0.001 / 0.02698154) / 1.840))))"
    by (simp only:)
next
  show "- 1.696 < log 10 ((0.001 / 0.02698154) / 1.840 :: real)"
    by (rule al_target_bounds)
  show "log 10 ((0.001 / 0.02698154) / 1.840 :: real) < - 1.695"
    by (rule al_target_bounds)
qed

theorem C1_witness:
  "\<exists>blk. build example_units example_values [0] = Inr blk
     \<and> map_of (eq_aluminum_molality blk) 0 =
         Some (Eq (V (Out_log10_molality_comp 0 ''Al^3+''))
                 (Num (log 10 ((0.001 / 0.02698154) / 1.840))))
     \<and> - 1.696 < log 10 ((0.001 / 0.02698154) / 1.840 :: real)
     \<and> log 10 ((0.001 / 0.02698154) / 1.840 :: real) < - 1.695"
proof -
  from example_build obtain blk where
    b: "build example_units example_values [0] = Inr blk" by blast
  have t: "(0::real) \<in> set [0]" by simp
  have ex: "example_units (In_flow_vol 0) = unit_div pyunits_L pyunits_s
       \<and> example_units (In_flow_mass 0 ''Al'') = unit_div pyunits_kg pyunits_s
       \<and> example_values (In_flow_vol 0) = Some 1
       \<and> example_values (In_flow_mass 0 ''Al'') = Some 0.001"
    by (simp add: example_units_def example_values_def)
  from C1_metal_molality_targets_fixed_at_build [OF b t] ex b show ?thesis by blast
qed

text \<open>
  C8. In a block that \<^verbatim>\<open>build\<close> returned, whatever the units and values of the
  upstream variables were, the hydrogen constraint at every time index equates
  \<^verbatim>\<open>log10_molality_comp["H^+"]\<close> to the number -2.5, which is \<open>log 10 (10 powr (- 2.5))\<close>,
  and the hydroxide constraint equates \<^verbatim>\<open>log10_molality_comp["OH^-"]\<close> to the number
  -11.5, which is \<open>log 10 (1e-14 / 10 powr (- 2.5))\<close>.
\<close>

theorem C8_hydrogen_hydroxide_targets_constant:
  assumes "build vu s time = Inr blk"
  shows "eq_hydrogen_molality blk =
           map (\<lambda>t. (t, Eq (V (Out_log10_molality_comp t ''H^+'')) (Num (- 2.5)))) time
       \<and> eq_hydroxide_molality blk =
           map (\<lambda>t. (t, Eq (V (Out_log10_molality_comp t ''OH^-'')) (Num (- 11.5)))) time
       \<and> log 10 (10 powr (- pH)) = - 2.5 \<and> pH = 2.5
       \<and> log 10 (Kw / 10 powr (- pH)) = - 11.5 \<and> Kw = 1 / 10 ^ 14"
proof -
  from assms obtain c9 c10 where
    c9: "build_indexed eq_hydrogen_molality_rule time = Inr c9" and
    c10: "build_indexed eq_hydroxide_molality_rule time = Inr c10" and
    b: "eq_hydrogen_molality blk = c9" "eq_hydroxide_molality blk = c10"
    unfolding build_def and_then_Inr_iff by auto
  have "build_indexed eq_hydrogen_molality_rule time =
      Inr (map (\<lambda>t. (t, Eq (V (Out_log10_molality_comp t ''H^+'')) (Num (- 2.5)))) time)"
    by (rule build_indexed_total) (rule eq_hydrogen_molality_rule_const)
  moreover have "build_indexed eq_hydroxide_molality_rule time =
      Inr (map (\<lambda>t. (t, Eq (V (Out_log10_molality_comp t ''OH^-'')) (Num (- 11.5)))) time)"
    by (rule build_indexed_total) (rule eq_hydroxide_molality_rule_const)
  ultimately show ?thesis
    using c9 c10 b hydrogen_target hydroxide_target by (simp add: pH_def Kw_def)
qed

theorem C8_witness:
  "\<exists>blk. build example_units example_values [0] = Inr blk
     \<and> eq_hydrogen_molality blk =
         [(0, Eq (V (Out_log10_molality_comp 0 ''H^+'')) (Num (- 2.5)))]
     \<and> eq_hydroxide_molality blk =
         [(0, Eq (V (Out_log10_molality_comp 0 ''OH^-'')) (Num (- 11.5)))]"
proof -
  from example_build obtain blk where
    b: "build example_units example_values [0] = Inr blk" by blast
  from C8_hydrogen_hydroxide_targets_constant [OF b] b show ?thesis by auto
qed



section \<open>Properties of the custom vessel costing\<close>

lemma get_units_lift [simp]:
  "get_units (var_units ext blk) (map_expr Ext e) = get_units ext e"
  by (induction e) (simp_all add: var_units_def)

lemma unit_mul_dimensionless [simp]: "unit_mul dimensionless u = u"
  by (cases u, cases "dims u") (simp add: unit_mul_def dimensionless_def)

lemma m3 [simp]: "unit_pow pyunits_m 3 = Unit 1 (Dimension 0 3 0 0 0)"
  by (simp add: unit_pow_def pyunits_m_def)

lemma capital_rule:
  assumes usd: "pyunits ''USD_custom'' = Some usd"
    and mf: "material_factor_dict (material a) = Some f"
    and blk: "blk_attr blk ''capital_cost_per_unit'' = Inr (V (Own ''capital_cost_per_unit''))"
  shows "capital_cost_per_unit_eq pyunits ext a ce blk =
     (if dims (unit_mul usd
           (unit_pow (unit_div (get_units ext (volume_per_unit a))
              (Unit 1 (Dimension 0 3 0 0 0))) 0.6)) \<noteq> dims ce
      then Inl InconsistentUnitsError
      else Inr (Eq (V (Own ''capital_cost_per_unit''))
       (converted
          (unit_mul usd
             (unit_pow (unit_div (get_units ext (volume_per_unit a))
                (Unit 1 (Dimension 0 3 0 0 0))) 0.6))
          ce
          (Mul (Mul (Num f) (Mul (Num 10000) (U usd)))
             (Pow (Div (map_expr Ext (volume_per_unit a)) (Mul (Num 1000) (Pow (U pyunits_m) 3)))
                0.6)))))"
  using assms
  by (simp add: capital_cost_per_unit_eq_def getattr_def getitem_material_def
      convert_converted)

lemma capital_rule_no_unit:
  assumes "pyunits ''USD_custom'' = None"
  shows "capital_cost_per_unit_eq pyunits ext a ce blk = Inl (AttributeError ''USD_custom'')"
  using assms by (simp add: capital_cost_per_unit_eq_def getattr_def)

lemma capital_rule_no_material:
  assumes usd: "pyunits ''USD_custom'' = Some usd"
    and mf: "material_factor_dict (material a) = None"
    and blk: "blk_attr blk ''capital_cost_per_unit'' = Inr (V (Own ''capital_cost_per_unit''))"
  shows "capital_cost_per_unit_eq pyunits ext a ce blk = Inl (KeyError (material a))"
  using assms by (simp add: capital_cost_per_unit_eq_def getattr_def getitem_material_def)

lemma fixed_rule:
  assumes "blk_attr blk ''fixed_operating_cost_per_unit'' =
       Inr (V (Own ''fixed_operating_cost_per_unit''))"
    and "blk_attr blk ''capital_cost'' = Inr (V (Own ''capital_cost''))"
    and "var_units ext blk (Own ''capital_cost'') = ce"
  shows "fixed_operating_cost_per_unit_eq ext ce blk =
     Inr (Eq (V (Own ''fixed_operating_cost_per_unit''))
            (Mul (Num 0.05) (V (Own ''capital_cost''))))"
  using assms by (simp add: fixed_operating_cost_per_unit_eq_def convert_def)

lemma variable_rule:
  assumes usd: "pyunits ''USD_custom'' = Some usd"
    and blk: "blk_attr blk ''variable_operating_cost_per_unit'' =
       Inr (V (Own ''variable_operating_cost_per_unit''))"
  shows "variable_operating_cost_per_unit_eq pyunits ext a ce blk =
     (if dims (unit_mul (unit_div usd pyunits_gal)
                (get_units ext (water_injection_rate_per_unit a)))
          \<noteq> dims (unit_div ce pyunits_year)
      then Inl InconsistentUnitsError
      else Inr (Eq (V (Own ''variable_operating_cost_per_unit''))
       (converted
          (unit_mul (unit_div usd pyunits_gal) (get_units ext (water_injection_rate_per_unit a)))
          (unit_div ce pyunits_year)
          (Mul (Div (Mul (Num 0.00190) (U usd)) (U pyunits_gal))
             (map_expr Ext (water_injection_rate_per_unit a))))))"
  using usd blk
  by (simp add: variable_operating_cost_per_unit_eq_def getattr_def convert_converted)

lemma cost_custom_vessel_cases:
  "cost_custom_vessel pyunits ext a [] =
    (case pyunits (''MUSD_'' @ CE_index_year a) of
       None \<Rightarrow> (Some (AttributeError (''MUSD_'' @ CE_index_year a)), [])
     | Some ce \<Rightarrow>
        (case pyunits ''USD_custom'' of
           None \<Rightarrow> (Some (AttributeError ''USD_custom''), take 2 (built ce ce 0 ext a)
                      @ [(''capital_cost_per_unit_eq'', Constraint None)])
         | Some usd \<Rightarrow>
            (case material_factor_dict (material a) of
               None \<Rightarrow> (Some (KeyError (material a)), take 2 (built ce usd 0 ext a)
                      @ [(''capital_cost_per_unit_eq'', Constraint None)])
             | Some f \<Rightarrow>
                if dims (unit_mul usd
                     (unit_pow (unit_div (get_units ext (volume_per_unit a))
                        (Unit 1 (Dimension 0 3 0 0 0))) 0.6)) \<noteq> dims ce
                then (Some InconsistentUnitsError, take 2 (built ce usd f ext a)
                      @ [(''capital_cost_per_unit_eq'', Constraint None)])
                else if dims (unit_mul (unit_div usd pyunits_gal)
                          (get_units ext (water_injection_rate_per_unit a)))
                        \<noteq> dims (unit_div ce pyunits_year)
                then (Some InconsistentUnitsError, take 10 (built ce usd f ext a)
                      @ [(''variable_operating_cost_per_unit_eq'', Constraint None)])
                else (None, built ce usd f ext a))))"
  by (simp add: cost_custom_vessel_def getattr_def add_component_def add_Constraint_def
      capital_rule [where pyunits = pyunits] capital_rule_no_unit capital_rule_no_material
      fixed_rule variable_rule [where pyunits = pyunits]
      capital_cost_constraint_def fixed_operating_cost_constraint_def
      variable_operating_cost_constraint_def blk_attr_def cost_Var_def var_units_def
      built_def split: option.splits)

lemma cost_custom_vessel_returns:
  assumes "fst (cost_custom_vessel pyunits ext a []) = None"
  shows "\<exists>ce usd f. pyunits (''MUSD_'' @ CE_index_year a) = Some ce
     \<and> pyunits ''USD_custom'' = Some usd
     \<and> material_factor_dict (material a) = Some f
     \<and> cost_custom_vessel pyunits ext a [] = (None, built ce usd f ext a)"
  using assms unfolding cost_custom_vessel_cases
  by (auto split: option.splits if_splits)

lemma constraint_body_built:
  "constraint_body (built ce usd f ext a) ''capital_cost_per_unit_eq'' =
     Some (Eq (V (Own ''capital_cost_per_unit''))
       (converted
          (unit_mul usd
             (unit_pow (unit_div (get_units ext (volume_per_unit a))
                (Unit 1 (Dimension 0 3 0 0 0))) 0.6))
          ce
          (Mul (Mul (Num f) (Mul (Num 10000) (U usd)))
             (Pow (Div (map_expr Ext (volume_per_unit a))
                     (Mul (Num 1000) (Pow (U pyunits_m) 3))) 0.6))))"
  "constraint_body (built ce usd f ext a) ''capital_cost_constraint'' =
     Some (Eq (V (Own ''capital_cost''))
       (Mul (V (Own ''capital_cost_per_unit'')) (Num (number_of_units a))))"
  "constraint_body (built ce usd f ext a) ''fixed_operating_cost_per_unit_eq'' =
     Some (Eq (V (Own ''fixed_operating_cost_per_unit''))
       (Mul (Num 0.05) (V (Own ''capital_cost''))))"
  "constraint_body (built ce usd f ext a) ''variable_operating_cost_per_unit_eq'' =
     Some (Eq (V (Own ''variable_operating_cost_per_unit''))
       (converted
          (unit_mul (unit_div usd pyunits_gal)
             (get_units ext (water_injection_rate_per_unit a)))
          (unit_div ce pyunits_year)
          (Mul (Div (Mul (Num 0.00190) (U usd)) (U pyunits_gal))
             (map_expr Ext (water_injection_rate_per_unit a)))))"
  by (simp_all add: built_def constraint_body_def)

lemma value_of_capital_src:
  assumes "value_of s vol = Inr v" "0 \<le> v"
  shows "value_of s
      (Mul (Mul (Num f) (Mul (Num 10000) (U usd)))
         (Pow (Div vol (Mul (Num 1000) (Pow (U pyunits_m) 3))) 0.6))
    = Inr (f * 10000 * (v / 1000) powr 0.6)"
  using assms by (simp add: py_pow_def py_div_def)

lemma value_of_variable_src:
  assumes "value_of s water = Inr w"
  shows "value_of s (Mul (Div (Mul (Num 0.00190) (U usd)) (U pyunits_gal)) water)
    = Inr (0.00190 * w)"
  using assms by (simp add: py_div_def)

lemma scale_capital_src:
  "scale (unit_mul usd (unit_pow (unit_div vol_u (Unit 1 (Dimension 0 3 0 0 0))) r))
     = scale usd * scale vol_u powr r"
  by (simp add: unit_mul_def unit_pow_def unit_div_def)

lemma material_factor_dict_dom:
  "material_factor_dict key = Some f \<longleftrightarrow>
     (key = ''carbonsteel'' \<and> f = 1) \<or> (key = ''stainlessteel'' \<and> f = 1.5)
       \<or> (key = ''aluminum'' \<and> f = 2)"
  by (auto simp: material_factor_dict_def)

lemma material_factor_dict_None:
  "material_factor_dict key = None \<longleftrightarrow>
     key \<notin> {''carbonsteel'', ''stainlessteel'', ''aluminum''}"
  by (auto simp: material_factor_dict_def)

lemma class_body_registers:
  assumes "reg ''USD_CE500'' = Some u"
  shows "CustomCostingData_class_body reg =
     reg(''USD_custom'' \<mapsto> Unit (500 / 700 * scale u) (dims u))"
  using assms by (simp add: CustomCostingData_class_body_def)

lemma example_pyunits_simps:
  "example_pyunits ''USD_custom'' = Some (Unit (500 / 700) (Dimension 0 0 0 0 1))"
  "example_pyunits ''USD_2021'' = Some (Unit (500 / 708) (Dimension 0 0 0 0 1))"
  "example_pyunits ''MUSD_2021'' = Some (Unit (10 ^ 6 * (500 / 708)) (Dimension 0 0 0 0 1))"
  by (simp_all add: example_pyunits_def CustomCostingData_class_body_def currency_units_def)

lemma default_args_units:
  "get_units ext (volume_per_unit default_args) = Unit 1 (Dimension 0 3 0 0 0)"
  "get_units ext (water_injection_rate_per_unit default_args) = Unit 1 (Dimension 0 3 (- 1) 0 0)"
  by (simp_all add: default_args_def unit_div_def pyunits_s_def)

lemma example_returns:
  "cost_custom_vessel example_pyunits ext default_args [] =
     (None, built (Unit (10 ^ 6 * (500 / 708)) (Dimension 0 0 0 0 1))
               (Unit (500 / 700) (Dimension 0 0 0 0 1)) 1 ext default_args)"
proof -
  have m: "material_factor_dict (material default_args) = Some 1"
    by (simp add: material_factor_dict_def default_args_def)
  have y: "''MUSD_'' @ CE_index_year default_args = ''MUSD_2021''"
    by (simp add: default_args_def)
  show ?thesis
    unfolding cost_custom_vessel_cases y
    by (simp add: example_pyunits_simps m default_args_units unit_mul_def unit_pow_def
        unit_div_def pyunits_gal_def pyunits_year_def)
qed

text \<open>
  C2, as the code has it. On a new costing block, with the currency units
  \<^verbatim>\<open>MUSD_<CE_index_year>\<close> and \<^verbatim>\<open>USD_custom\<close> registered, a material that is none of
  "carbonsteel", "stainlessteel" and "aluminum" makes \<^verbatim>\<open>cost_custom_vessel\<close> raise
  \<^verbatim>\<open>KeyError(material)\<close> from the rule of \<^verbatim>\<open>capital_cost_per_unit_eq\<close>. By then the
  parameter \<^verbatim>\<open>number_of_units\<close> and the variable \<^verbatim>\<open>capital_cost_per_unit\<close> are on the
  block: that one variable has been built, the other five have not, and no constraint
  has a body.
\<close>

theorem C2_unsupported_material_raises_after_first_variable:
  assumes "pyunits (''MUSD_'' @ CE_index_year a) = Some ce"
    and "pyunits ''USD_custom'' = Some usd"
    and "material a \<notin> {''carbonsteel'', ''stainlessteel'', ''aluminum''}"
  shows "fst (cost_custom_vessel pyunits ext a []) = Some (KeyError (material a))
       \<and> snd (cost_custom_vessel pyunits ext a []) =
           [(''number_of_units'', Param (number_of_units a) False),
            (''capital_cost_per_unit'', cost_Var ce),
            (''capital_cost_per_unit_eq'', Constraint None)]
       \<and> variables (snd (cost_custom_vessel pyunits ext a [])) = [''capital_cost_per_unit'']
       \<and> (\<forall>name. constraint_body (snd (cost_custom_vessel pyunits ext a [])) name = None)"
proof -
  from assms(3) have "material_factor_dict (material a) = None"
    using material_factor_dict_None by blast
  with assms(1,2) have "cost_custom_vessel pyunits ext a [] =
      (Some (KeyError (material a)),
       [(''number_of_units'', Param (number_of_units a) False),
        (''capital_cost_per_unit'', cost_Var ce),
        (''capital_cost_per_unit_eq'', Constraint None)])"
    unfolding cost_custom_vessel_cases by (simp add: built_def)
  then show ?thesis
    by (simp add: variables_def constraint_body_def cost_Var_def)
qed

theorem C2_witness:
  "fst (cost_custom_vessel example_pyunits (\<lambda>n. dimensionless)
          (default_args\<lparr>material := ''copper''\<rparr>) []) = Some (KeyError ''copper'')
   \<and> variables (snd (cost_custom_vessel example_pyunits (\<lambda>n. dimensionless)
          (default_args\<lparr>material := ''copper''\<rparr>) [])) = [''capital_cost_per_unit'']"
proof -
  let ?a = "default_args\<lparr>material := ''copper''\<rparr>"
  have h1: "example_pyunits (''MUSD_'' @ CE_index_year ?a) =
      Some (Unit (10 ^ 6 * (500 / 708)) (Dimension 0 0 0 0 1))"
    by (simp add: example_pyunits_simps default_args_def)
  have h2: "example_pyunits ''USD_custom'' = Some (Unit (500 / 700) (Dimension 0 0 0 0 1))"
    by (simp add: example_pyunits_simps)
  have h3: "material ?a \<notin> {''carbonsteel'', ''stainlessteel'', ''aluminum''}"
    by simp
  from C2_unsupported_material_raises_after_first_variable [OF h1 h2 h3]
  have "fst (cost_custom_vessel example_pyunits (\<lambda>n. dimensionless) ?a []) =
          Some (KeyError (material ?a))
      \<and> variables (snd (cost_custom_vessel example_pyunits (\<lambda>n. dimensionless) ?a [])) =
          [''capital_cost_per_unit'']"
    by blast
  then show ?thesis by simp
qed

text \<open>
  With the material "titanium" and otherwise the default arguments, the call raises the
  \<^verbatim>\<open>KeyError\<close> and leaves a block that has a variable.
\<close>

theorem C2_counterexample:
  "fst (cost_custom_vessel example_pyunits (\<lambda>n. dimensionless)
          (default_args\<lparr>material := ''titanium''\<rparr>) []) = Some (KeyError ''titanium'')
   \<and> variables (snd (cost_custom_vessel example_pyunits (\<lambda>n. dimensionless)
          (default_args\<lparr>material := ''titanium''\<rparr>) [])) \<noteq> []"
proof -
  have y: "''MUSD_'' @ CE_index_year (default_args\<lparr>material := ''titanium''\<rparr>) = ''MUSD_2021''"
    by (simp add: default_args_def)
  have m: "material_factor_dict ''titanium'' = None"
    by (simp add: material_factor_dict_def)
  show ?thesis
    unfolding cost_custom_vessel_cases y
    by (simp add: example_pyunits_simps m built_def variables_def cost_Var_def)
qed

text \<open>
  C4. Whenever \<^verbatim>\<open>cost_custom_vessel\<close> returns on a new costing block, the body of
  \<^verbatim>\<open>fixed_operating_cost_per_unit_eq\<close> equates \<^verbatim>\<open>fixed_operating_cost_per_unit\<close> to the
  product of 0.05 and the variable \<^verbatim>\<open>capital_cost\<close>, the one that
  \<^verbatim>\<open>capital_cost_constraint\<close> equates to \<^verbatim>\<open>capital_cost_per_unit * number_of_units\<close>; the
  right-hand side is worth 0.05 times the value of \<^verbatim>\<open>capital_cost\<close> and does not mention
  \<^verbatim>\<open>capital_cost_per_unit\<close>.
\<close>

theorem C4_fixed_cost_is_five_percent_of_capital_cost:
  assumes "fst (cost_custom_vessel pyunits ext a []) = None"
  shows "constraint_body (snd (cost_custom_vessel pyunits ext a []))
           ''fixed_operating_cost_per_unit_eq'' =
           Some (Eq (V (Own ''fixed_operating_cost_per_unit''))
                   (Mul (Num 0.05) (V (Own ''capital_cost''))))
       \<and> constraint_body (snd (cost_custom_vessel pyunits ext a []))
           ''capital_cost_constraint'' =
           Some (Eq (V (Own ''capital_cost''))
                   (Mul (V (Own ''capital_cost_per_unit'')) (Num (number_of_units a))))
       \<and> (\<forall>s c. s (Own ''capital_cost'') = Some c \<longrightarrow>
             value_of s (Mul (Num 0.05) (V (Own ''capital_cost''))) = Inr (0.05 * c))
       \<and> Own ''capital_cost_per_unit''
             \<notin> vars_of (Mul (Num 0.05) (V (Own ''capital_cost'')))"
proof -
  from cost_custom_vessel_returns [OF assms] obtain ce usd f where
    "cost_custom_vessel pyunits ext a [] = (None, built ce usd f ext a)" by blast
  then show ?thesis by (simp add: constraint_body_built)
qed

theorem C4_witness:
  "fst (cost_custom_vessel example_pyunits (\<lambda>n. dimensionless) default_args []) = None
   \<and> constraint_body
        (snd (cost_custom_vessel example_pyunits (\<lambda>n. dimensionless) default_args []))
        ''fixed_operating_cost_per_unit_eq'' =
        Some (Eq (V (Own ''fixed_operating_cost_per_unit''))
                (Mul (Num 0.05) (V (Own ''capital_cost''))))"
proof -
  have r: "fst (cost_custom_vessel example_pyunits (\<lambda>n. dimensionless) default_args []) = None"
    by (simp add: example_returns)
  from C4_fixed_cost_is_five_percent_of_capital_cost [OF r] r show ?thesis by blast
qed

lemma capital_value:
  fixes sv v f su sc :: real
  shows "su * sv powr r / sc * (f * 10000 * (v / 1000) powr r)
     = f * (10000 * (su / sc)) * ((sv * v) / 1000) powr r"
proof -
  have "((sv * v) / 1000) powr r = sv powr r * (v / 1000) powr r"
    using powr_mult [of sv "v / 1000" r] by simp
  then show ?thesis by simp
qed

lemma built_capital_value:
  assumes "scale ce \<noteq> 0" "value_of s (map_expr Ext (volume_per_unit a)) = Inr v" "0 \<le> v"
  shows "value_of s
     (converted
        (unit_mul usd
           (unit_pow (unit_div (get_units ext (volume_per_unit a))
              (Unit 1 (Dimension 0 3 0 0 0))) 0.6))
        ce
        (Mul (Mul (Num f) (Mul (Num 10000) (U usd)))
           (Pow (Div (map_expr Ext (volume_per_unit a))
                   (Mul (Num 1000) (Pow (U pyunits_m) 3))) 0.6)))
    = Inr (f * (10000 * (scale usd / scale ce))
           * ((scale (get_units ext (volume_per_unit a)) * v) / 1000) powr 0.6)"
  unfolding value_of_converted [OF assms(1)] value_of_capital_src [OF assms(2,3)]
    scale_capital_src
  by (simp only: and_then_simps capital_value)

lemma built_variable_value:
  assumes "scale ce \<noteq> 0" "value_of s (map_expr Ext (water_injection_rate_per_unit a)) = Inr w"
  shows "value_of s
     (converted
        (unit_mul (unit_div usd pyunits_gal)
           (get_units ext (water_injection_rate_per_unit a)))
        (unit_div ce pyunits_year)
        (Mul (Div (Mul (Num 0.00190) (U usd)) (U pyunits_gal))
           (map_expr Ext (water_injection_rate_per_unit a))))
    = Inr (scale usd / scale pyunits_gal
             * scale (get_units ext (water_injection_rate_per_unit a))
             / (scale ce / scale pyunits_year) * (0.00190 * w))"
proof -
  have y: "scale (unit_div ce pyunits_year) \<noteq> 0"
    using assms(1) by (simp add: unit_div_def pyunits_year_def)
  show ?thesis
    unfolding value_of_converted [OF y] value_of_variable_src [OF assms(2)]
    by (simp add: unit_mul_def unit_div_def)
qed



lemma holds_I:
  assumes "value_of s lhs = Inr x" "value_of s rhs = Inr x"
  shows "holds s (Eq lhs rhs)"
  using assms by (simp add: holds_def)

lemma holds_V:
  assumes "holds s (Eq (V x) rhs)" "value_of s rhs = Inr y"
  shows "s x = Some y"
  using assms by (auto simp: holds_def split: option.splits sum.splits)

lemma holds_V_times:
  assumes "holds s (Eq (V x) (Mul (V p) (Num n)))" "s p = Some c"
  shows "s x = Some (c * n)"
  using assms by (auto simp: holds_def split: option.splits sum.splits)

lemma holds_V_fraction:
  assumes "holds s (Eq (V x) (Mul (Num k) (V p)))" "s p = Some c"
  shows "s x = Some (k * c)"
  using assms by (auto simp: holds_def split: option.splits sum.splits)

text \<open>
  The six cost figures in any solution of the constraints of a finished block, given
  the value \<open>v\<close> of the volume per unit and \<open>w\<close> of the water injection rate per unit.
\<close>

lemma cost_figures:
  assumes sat: "satisfies s (built ce usd f ext a)" and ce: "scale ce \<noteq> 0"
    and v: "value_of s (map_expr Ext (volume_per_unit a)) = Inr v" "0 \<le> v"
    and w: "value_of s (map_expr Ext (water_injection_rate_per_unit a)) = Inr w"
    and A: "A = f * (10000 * (scale usd / scale ce))
                * ((scale (get_units ext (volume_per_unit a)) * v) / 1000) powr 0.6"
    and B: "B = scale usd / scale pyunits_gal
                * scale (get_units ext (water_injection_rate_per_unit a))
                / (scale ce / scale pyunits_year) * (0.00190 * w)"
  shows "s (Own ''capital_cost_per_unit'') = Some A"
    and "s (Own ''capital_cost'') = Some (A * number_of_units a)"
    and "s (Own ''fixed_operating_cost_per_unit'') = Some (0.05 * (A * number_of_units a))"
    and "s (Own ''fixed_operating_cost'') =
           Some (0.05 * (A * number_of_units a) * number_of_units a)"
    and "s (Own ''variable_operating_cost_per_unit'') = Some B"
    and "s (Own ''variable_operating_cost'') = Some (B * number_of_units a)"
proof -
  from sat have
    h1: "holds s (Eq (V (Own ''capital_cost_per_unit''))
           (converted
              (unit_mul usd
                 (unit_pow (unit_div (get_units ext (volume_per_unit a))
                    (Unit 1 (Dimension 0 3 0 0 0))) 0.6))
              ce
              (Mul (Mul (Num f) (Mul (Num 10000) (U usd)))
                 (Pow (Div (map_expr Ext (volume_per_unit a))
                         (Mul (Num 1000) (Pow (U pyunits_m) 3))) 0.6))))" and
    h2: "holds s (Eq (V (Own ''capital_cost''))
           (Mul (V (Own ''capital_cost_per_unit'')) (Num (number_of_units a))))" and
    h3: "holds s (Eq (V (Own ''fixed_operating_cost_per_unit''))
           (Mul (Num 0.05) (V (Own ''capital_cost''))))" and
    h4: "holds s (Eq (V (Own ''fixed_operating_cost''))
           (Mul (V (Own ''fixed_operating_cost_per_unit'')) (Num (number_of_units a))))" and
    h5: "holds s (Eq (V (Own ''variable_operating_cost_per_unit''))
           (converted
              (unit_mul (unit_div usd pyunits_gal)
                 (get_units ext (water_injection_rate_per_unit a)))
              (unit_div ce pyunits_year)
              (Mul (Div (Mul (Num 0.00190) (U usd)) (U pyunits_gal))
                 (map_expr Ext (water_injection_rate_per_unit a)))))" and
    h6: "holds s (Eq (V (Own ''variable_operating_cost''))
           (Mul (V (Own ''variable_operating_cost_per_unit'')) (Num (number_of_units a))))"
    by (simp_all add: satisfies_def built_def cost_Var_def)
  show c1: "s (Own ''capital_cost_per_unit'') = Some A"
    unfolding A using h1 built_capital_value [OF ce v] by (rule holds_V)
  show c2: "s (Own ''capital_cost'') = Some (A * number_of_units a)"
    using h2 c1 by (rule holds_V_times)
  show c3: "s (Own ''fixed_operating_cost_per_unit'') = Some (0.05 * (A * number_of_units a))"
    using h3 c2 by (rule holds_V_fraction)
  show "s (Own ''fixed_operating_cost'') =
           Some (0.05 * (A * number_of_units a) * number_of_units a)"
    using h4 c3 by (rule holds_V_times)
  show c5: "s (Own ''variable_operating_cost_per_unit'') = Some B"
    unfolding B using h5 built_variable_value [OF ce w] by (rule holds_V)
  show "s (Own ''variable_operating_cost'') = Some (B * number_of_units a)"
    using h6 c5 by (rule holds_V_times)
qed




section \<open>Properties of the initialization sequence\<close>

lemma init_solved_path:
  assumes "get_solver_raises ext = None" "initialize_in_raises ext = None"
    "initialize_out_raises ext = None" "dof ext = 0"
    "solve_returns ext = Inr res" "release_state_raises ext = None"
  shows "initialize_build name ext st =
    ((if check_optimal_termination res then None
      else Some (InitializationError (init_failed_message name))),
     st\<lparr>calls := calls st @ [Get_solver, Initialize_in True, Initialize_out,
          Degrees_of_freedom, Solve, Release_state (fixed_in st), Log_info]\<rparr>)"
  using assms by (simp add: initialize_build_def called_def Let_def)

lemma init_dof_path:
  assumes "get_solver_raises ext = None" "initialize_in_raises ext = None"
    "initialize_out_raises ext = None" "dof ext \<noteq> 0"
  shows "initialize_build name ext st =
    (Some (Exception (dof_message name (dof ext))),
     st\<lparr>fixed_in := (\<lambda>v. True),
        calls := calls st @ [Get_solver, Initialize_in True, Initialize_out,
          Degrees_of_freedom, Degrees_of_freedom]\<rparr>)"
  using assms by (simp add: initialize_build_def called_def Let_def)

lemma init_solve_raises_path:
  assumes "get_solver_raises ext = None" "initialize_in_raises ext = None"
    "initialize_out_raises ext = None" "dof ext = 0" "solve_returns ext = Inl e"
  shows "initialize_build name ext st =
    (Some e,
     st\<lparr>fixed_in := (\<lambda>v. True),
        calls := calls st @ [Get_solver, Initialize_in True, Initialize_out,
          Degrees_of_freedom, Solve]\<rparr>)"
  using assms by (simp add: initialize_build_def called_def Let_def)

lemma release_needs_solve:
  assumes "Release_state f \<in> set (calls_made name ext st)"
  shows "dof ext = 0 \<and> (\<exists>res. solve_returns ext = Inr res) \<and> f = fixed_in st"
  using assms unfolding calls_made_def
  by (auto simp add: initialize_build_def called_def Let_def
      split: option.splits sum.splits if_splits)

text \<open>
  C5. When the state blocks initialize, the degrees of freedom are zero and the solver
  returns a result, the run calls \<^verbatim>\<open>release_state\<close> right after \<^verbatim>\<open>solve\<close>, with the
  flags that \<^verbatim>\<open>properties_in.initialize(hold_state=True)\<close> returned, whatever the result
  says; the upstream block is then fixed as it was before the hold. Only after that is
  the result looked at: a result that is not an optimal termination raises the
  \<^verbatim>\<open>InitializationError\<close>, an optimal one lets the method return.
\<close>

theorem C5_release_before_initialization_error:
  assumes "get_solver_raises ext = None" "initialize_in_raises ext = None"
    "initialize_out_raises ext = None" "dof ext = 0"
    "solve_returns ext = Inr res" "release_state_raises ext = None"
  shows "calls_made name ext st =
           [Get_solver, Initialize_in True, Initialize_out, Degrees_of_freedom,
            Solve, Release_state (fixed_in st), Log_info]
       \<and> fixed_in (snd (initialize_build name ext st)) = fixed_in st
       \<and> fst (initialize_build name ext st) =
           (if check_optimal_termination res then None
            else Some (InitializationError (init_failed_message name)))"
  using init_solved_path [OF assms, of name st] by (simp add: calls_made_def)

theorem C5_witness:
  "calls_made ''fs.translator''
     \<lparr>get_solver_raises = None, initialize_in_raises = None, initialize_out_raises = None,
      dof = 0,
      solve_returns = Inr \<lparr>status = warning, termination_condition = maxIterations\<rparr>,
      release_state_raises = None\<rparr>
     \<lparr>fixed_in = (\<lambda>v. False), calls = []\<rparr>
   = [Get_solver, Initialize_in True, Initialize_out, Degrees_of_freedom,
      Solve, Release_state (\<lambda>v. False), Log_info]
   \<and> fst (initialize_build ''fs.translator''
     \<lparr>get_solver_raises = None, initialize_in_raises = None, initialize_out_raises = None,
      dof = 0,
      solve_returns = Inr \<lparr>status = warning, termination_condition = maxIterations\<rparr>,
      release_state_raises = None\<rparr>
     \<lparr>fixed_in = (\<lambda>v. False), calls = []\<rparr>)
   = Some (InitializationError (init_failed_message ''fs.translator''))"
  using C5_release_before_initialization_error
    [of "\<lparr>get_solver_raises = None, initialize_in_raises = None,
          initialize_out_raises = None, dof = 0,
          solve_returns = Inr \<lparr>status = warning, termination_condition = maxIterations\<rparr>,
          release_state_raises = None\<rparr>"
        "\<lparr>status = warning, termination_condition = maxIterations\<rparr>"
        "''fs.translator''" "\<lparr>fixed_in = (\<lambda>v. False), calls = []\<rparr>"]
  by (simp add: check_optimal_termination_def)

text \<open>
  C6. When the state blocks initialize and the degrees of freedom are not zero, the run
  raises a plain \<^verbatim>\<open>Exception\<close> whose message starts with the block's name and ends with
  the degrees of freedom; the solver has not been called; and the exception is not an
  \<^verbatim>\<open>InitializationError\<close>.
\<close>

theorem C6_dof_error_before_solve:
  assumes "get_solver_raises ext = None" "initialize_in_raises ext = None"
    "initialize_out_raises ext = None" "dof ext \<noteq> 0"
  shows "fst (initialize_build name ext st) =
           Some (Exception (name @
             '' degrees of freedom were not 0 at the beginning of initialization. DoF = ''
             @ str_int (dof ext)))
       \<and> Solve \<notin> set (calls_made name ext st)
       \<and> (\<forall>m. fst (initialize_build name ext st) \<noteq> Some (InitializationError m))"
  using init_dof_path [OF assms, of name st] by (simp add: calls_made_def dof_message_def)

theorem C6_witness:
  "fst (initialize_build ''fs.translator''
     \<lparr>get_solver_raises = None, initialize_in_raises = None, initialize_out_raises = None,
      dof = 2,
      solve_returns = Inr \<lparr>status = ok, termination_condition = optimal\<rparr>,
      release_state_raises = None\<rparr>
     \<lparr>fixed_in = (\<lambda>v. False), calls = []\<rparr>)
   = Some (Exception
      ''fs.translator degrees of freedom were not 0 at the beginning of initialization. DoF = 2'')
   \<and> Solve \<notin> set (calls_made ''fs.translator''
     \<lparr>get_solver_raises = None, initialize_in_raises = None, initialize_out_raises = None,
      dof = 2,
      solve_returns = Inr \<lparr>status = ok, termination_condition = optimal\<rparr>,
      release_state_raises = None\<rparr>
     \<lparr>fixed_in = (\<lambda>v. False), calls = []\<rparr>)"
  using C6_dof_error_before_solve
    [of "\<lparr>get_solver_raises = None, initialize_in_raises = None,
          initialize_out_raises = None, dof = 2,
          solve_returns = Inr \<lparr>status = ok, termination_condition = optimal\<rparr>,
          release_state_raises = None\<rparr>"
        "''fs.translator''" "\<lparr>fixed_in = (\<lambda>v. False), calls = []\<rparr>"]
  by (simp add: str_int_def)

text \<open>
  C10. When the state blocks initialize and then either the degrees of freedom are not
  zero or the solver call raises, the run ends in an exception without a call of
  \<^verbatim>\<open>release_state\<close>, and every state variable of the upstream block is still fixed. In
  any run at all, a call of \<^verbatim>\<open>release_state\<close> is made only when the degrees of freedom
  were zero and the solver call returned.
\<close>

theorem C10_no_release_on_early_failure:
  assumes "get_solver_raises ext = None" "initialize_in_raises ext = None"
    "initialize_out_raises ext = None"
    "dof ext \<noteq> 0 \<or> (\<exists>e. solve_returns ext = Inl e)"
  shows "fst (initialize_build name ext st) \<noteq> None
       \<and> (\<forall>f. Release_state f \<notin> set (calls_made name ext st))
       \<and> fixed_in (snd (initialize_build name ext st)) = (\<lambda>v. True)
       \<and> (\<forall>ext' st' f. Release_state f \<in> set (calls_made name ext' st') \<longrightarrow>
            dof ext' = 0 \<and> (\<exists>res. solve_returns ext' = Inr res))"
proof (cases "dof ext = 0")
  case True
  with assms(4) obtain e where e: "solve_returns ext = Inl e" by auto
  show ?thesis
    using init_solve_raises_path [OF assms(1-3) True e, of name st] release_needs_solve
    by (auto simp: calls_made_def)
next
  case False
  show ?thesis
    using init_dof_path [OF assms(1-3) False, of name st] release_needs_solve
    by (auto simp: calls_made_def)
qed

theorem C10_witness:
  "fst (initialize_build ''fs.translator''
     \<lparr>get_solver_raises = None, initialize_in_raises = None, initialize_out_raises = None,
      dof = 0, solve_returns = Inl (External ''solver crashed''),
      release_state_raises = None\<rparr>
     \<lparr>fixed_in = (\<lambda>v. False), calls = []\<rparr>) = Some (External ''solver crashed'')
   \<and> calls_made ''fs.translator''
     \<lparr>get_solver_raises = None, initialize_in_raises = None, initialize_out_raises = None,
      dof = 0, solve_returns = Inl (External ''solver crashed''),
      release_state_raises = None\<rparr>
     \<lparr>fixed_in = (\<lambda>v. False), calls = []\<rparr>
     = [Get_solver, Initialize_in True, Initialize_out, Degrees_of_freedom, Solve]
   \<and> fixed_in (snd (initialize_build ''fs.translator''
     \<lparr>get_solver_raises = None, initialize_in_raises = None, initialize_out_raises = None,
      dof = 0, solve_returns = Inl (External ''solver crashed''),
      release_state_raises = None\<rparr>
     \<lparr>fixed_in = (\<lambda>v. False), calls = []\<rparr>)) = (\<lambda>v. True)"
proof -
  let ?ext = "\<lparr>get_solver_raises = None, initialize_in_raises = None,
          initialize_out_raises = None, dof = 0,
          solve_returns = Inl (External ''solver crashed''),
          release_state_raises = None\<rparr>"
  let ?st = "\<lparr>fixed_in = (\<lambda>v. False), calls = []\<rparr>"
  have "fixed_in (snd (initialize_build ''fs.translator'' ?ext ?st)) = (\<lambda>v. True)"
    using C10_no_release_on_early_failure [of ?ext "''fs.translator''" ?st] by simp
  moreover have "initialize_build ''fs.translator'' ?ext ?st =
     (Some (External ''solver crashed''),
      \<lparr>fixed_in = (\<lambda>v. True),
       calls = [Get_solver, Initialize_in True, Initialize_out, Degrees_of_freedom, Solve]\<rparr>)"
    by (simp add: initialize_build_def called_def)
  ultimately show ?thesis by (simp add: calls_made_def)
qed

end
